theory Spec2Isabelle
  imports Complex_Main
begin

section \<open>Data model (example_six/backend/models.py)\<close>

text \<open>
  A \<open>Document\<close> is what the directory reader hands to the backend: an identifier, the
  text, and a metadata dictionary.  The dictionary is read by the backend at seven keys only
  (\<open>file_name\<close>, \<open>file_type\<close>, \<open>file_path\<close>, \<open>file_size\<close>, \<open>creation_date\<close>,
  \<open>modified_at\<close>, \<open>accessed_at\<close>); each key is a field here, \<open>None\<close> when the key is absent,
  so that \<open>metadata.get(k, default)\<close> is a case distinction on the field.  Timestamps are
  integers (a point on a time line).
\<close>

record Document =
  d_doc_id :: string
  d_text :: string
  md_file_name :: "string option"
  md_file_type :: "string option"
  md_file_path :: "string option"
  md_file_size :: "int option"
  md_creation_date :: "int option"
  md_modified_at :: "int option"
  md_accessed_at :: "int option"

text \<open>
  One row of the table \<open>document_metadata\<close>.  The three date columns are nullable
  (\<open>None\<close> is NULL).  The surrogate integer key \<open>id\<close> of the table is read by no function of
  the backend and is left out.
\<close>

record DocumentMetadata =
  filename :: string
  doc_id :: string
  mime_type :: string
  file_path :: string
  size_col :: int
  creation_date :: "int option"
  modified_at :: "int option"
  accessed_at :: "int option"

text \<open>The calls the backend makes on the vector index (the adapter), by document identifier.\<close>

datatype adapter_call = Insert string | UpdateRefDoc string | DeleteRefDoc string

text \<open>
  The environment of one request: which of the external collaborators raise, and with which
  message (\<open>None\<close>: the call succeeds).  \<open>db_fault\<close> is a query on the metadata store,
  \<open>commit_fault\<close> a commit, \<open>save_fault\<close> the write of the uploaded file, \<open>index_fault\<close> a
  call on the vector index.  \<open>load_data\<close> is the directory reader: from the name and the
  content of a file, the documents it yields, or the message of the exception it raises.
  \<open>date_default\<close> is what the store writes into a date column whose attribute is \<open>None\<close>
  at the insert: the column's declared default (the time at which \<open>models.py\<close> was loaded)
  where the object-relational mapper leaves such a column out of the statement, NULL
  otherwise.
\<close>

record env =
  db_fault :: "string option"
  commit_fault :: "string option"
  save_fault :: "string option"
  index_fault :: "adapter_call \<Rightarrow> string option"
  load_data :: "string \<Rightarrow> string \<Rightarrow> string + Document list"
  date_default :: "int option"

text \<open>
  The state the endpoints act on: the committed rows of the metadata table in insertion
  order, the vector index as a list of (document identifier, text) entries, the files of the
  data folder, the adapter calls made so far, and whether the global agent exists.
\<close>

record state =
  table :: "DocumentMetadata list"
  index :: "(string \<times> string) list"
  disk :: "string \<rightharpoonup> string"
  calls :: "adapter_call list"
  agent_instance :: bool

type_synonym response = "(string \<times> string) list"

subsection \<open>Queries on the metadata table\<close>

definition check_document_exists_with_doc_id ::
  "env \<Rightarrow> DocumentMetadata list \<Rightarrow> string \<Rightarrow> string + bool" where
  "check_document_exists_with_doc_id e tbl d =
     (case db_fault e of
        Some m \<Rightarrow> Inl m
      | None \<Rightarrow> Inr (find (\<lambda>r. doc_id r = d) tbl \<noteq> None))"

definition check_document_exists_with_filename ::
  "env \<Rightarrow> DocumentMetadata list \<Rightarrow> string \<Rightarrow> string + bool" where
  "check_document_exists_with_filename e tbl f =
     (case db_fault e of
        Some m \<Rightarrow> Inl m
      | None \<Rightarrow> Inr (find (\<lambda>r. filename r = f) tbl \<noteq> None))"

definition get_doc_id_from_filename ::
  "env \<Rightarrow> DocumentMetadata list \<Rightarrow> string \<Rightarrow> string + string option" where
  "get_doc_id_from_filename e tbl f =
     (case db_fault e of
        Some m \<Rightarrow> Inl m
      | None \<Rightarrow>
          (case find (\<lambda>r. filename r = f) tbl of
             Some document \<Rightarrow> Inr (Some (doc_id document))
           | None \<Rightarrow> Inr None))"

subsection \<open>create_document_session\<close>

text \<open>The row built from a document that is not in the table yet.\<close>

definition new_row :: "env \<Rightarrow> Document \<Rightarrow> DocumentMetadata" where
  "new_row e d =
     \<lparr> filename = (case md_file_name d of Some v \<Rightarrow> v | None \<Rightarrow> ''unknown''),
       doc_id = d_doc_id d,
       mime_type = (case md_file_type d of Some v \<Rightarrow> v | None \<Rightarrow> ''unknown''),
       file_path = (case md_file_path d of Some v \<Rightarrow> v | None \<Rightarrow> ''unknown''),
       size_col = (case md_file_size d of Some v \<Rightarrow> v | None \<Rightarrow> 0),
       creation_date =
         (case md_creation_date d of Some v \<Rightarrow> Some v | None \<Rightarrow> date_default e),
       modified_at =
         (case md_modified_at d of Some v \<Rightarrow> Some v | None \<Rightarrow> date_default e),
       accessed_at =
         (case md_accessed_at d of Some v \<Rightarrow> Some v | None \<Rightarrow> date_default e) \<rparr>"

text \<open>The three assignments on a row that is in the table already.\<close>

definition update_row :: "Document \<Rightarrow> DocumentMetadata \<Rightarrow> DocumentMetadata" where
  "update_row d r =
     r\<lparr> size_col := (case md_file_size d of Some v \<Rightarrow> v | None \<Rightarrow> size_col r),
        modified_at := (case md_modified_at d of Some v \<Rightarrow> Some v | None \<Rightarrow> modified_at r),
        accessed_at := (case md_accessed_at d of Some v \<Rightarrow> Some v | None \<Rightarrow> accessed_at r) \<rparr>"

fun update_first ::
  "('a \<Rightarrow> bool) \<Rightarrow> ('a \<Rightarrow> 'a) \<Rightarrow> 'a list \<Rightarrow> 'a list" where
  "update_first p f [] = []"
| "update_first p f (x # xs) = (if p x then f x # xs else x # update_first p f xs)"

text \<open>
  A commit writes the pending rows of the session behind the committed ones.  It raises when
  the store does, or when a pending row breaks the uniqueness of the column \<open>doc_id\<close>; nothing
  is written then.
\<close>

definition db_commit ::
  "env \<Rightarrow> DocumentMetadata list \<Rightarrow> DocumentMetadata list \<Rightarrow> string + DocumentMetadata list" where
  "db_commit e tbl pend =
     (case commit_fault e of
        Some m \<Rightarrow> Inl m
      | None \<Rightarrow>
          if distinct (map doc_id pend) \<and> list_all (\<lambda>p. doc_id p \<notin> set (map doc_id tbl)) pend
          then Inr (tbl @ pend)
          else Inl ''IntegrityError'')"

text \<open>
  The loop of \<open>create_document_session\<close> over the documents, with the committed table and
  the rows added to the session and not committed yet.  The existence check runs in a session
  of its own and so sees committed rows only.  Every exception ends the loop in the handler,
  which rolls the session back: the result is the table as last committed.
\<close>

fun create_document_session_loop ::
  "env \<Rightarrow> Document list \<Rightarrow> DocumentMetadata list \<Rightarrow> DocumentMetadata list
     \<Rightarrow> DocumentMetadata list" where
  "create_document_session_loop e [] tbl pend =
     (case db_commit e tbl pend of Inl m \<Rightarrow> tbl | Inr tbl' \<Rightarrow> tbl')"
| "create_document_session_loop e (d # ds) tbl pend =
     (case check_document_exists_with_doc_id e tbl (d_doc_id d) of
        Inl m \<Rightarrow> tbl
      | Inr existing \<Rightarrow>
          if \<not> existing then create_document_session_loop e ds tbl (pend @ [new_row e d])
          else
            (case find (\<lambda>r. doc_id r = d_doc_id d) tbl of
               Some document_to_update \<Rightarrow>
                 (case db_commit e
                         (update_first (\<lambda>r. doc_id r = d_doc_id d) (update_row d) tbl) pend of
                    Inl m \<Rightarrow> tbl
                  | Inr tbl' \<Rightarrow> create_document_session_loop e ds tbl' [])
             | None \<Rightarrow> create_document_session_loop e ds tbl pend))"

definition create_document_session ::
  "env \<Rightarrow> Document list \<Rightarrow> DocumentMetadata list \<Rightarrow> DocumentMetadata list" where
  "create_document_session e docs tbl = create_document_session_loop e docs tbl []"

definition delete_document_metadata_by_doc_id ::
  "env \<Rightarrow> string \<Rightarrow> DocumentMetadata list \<Rightarrow> bool \<times> DocumentMetadata list" where
  "delete_document_metadata_by_doc_id e d tbl =
     (case db_fault e of
        Some m \<Rightarrow> (False, tbl)
      | None \<Rightarrow>
          (case find (\<lambda>r. doc_id r = d) tbl of
             Some document \<Rightarrow>
               (case commit_fault e of
                  Some m \<Rightarrow> (False, tbl)
                | None \<Rightarrow> (True, remove1 document tbl))
           | None \<Rightarrow> (False, tbl)))"

section \<open>File helpers (example_six/backend/utils.py)\<close>

text \<open>A path in the data folder is the file's name; \<open>str(file_path)\<close> prefixes the folder.\<close>

definition str_path :: "string \<Rightarrow> string" where
  "str_path f = ''data/'' @ f"

text \<open>
  The write of the uploaded file either succeeds or raises; a write that raises is taken to
  leave the folder as it was.
\<close>

definition save_file_to_data_folder ::
  "env \<Rightarrow> string \<Rightarrow> string \<Rightarrow> state \<Rightarrow> string option \<times> state" where
  "save_file_to_data_folder e f content s =
     (case save_fault e of
        Some m \<Rightarrow> (Some m, s)
      | None \<Rightarrow> (None, s\<lparr>disk := (disk s)(f \<mapsto> content)\<rparr>))"

definition delete_file :: "string \<Rightarrow> state \<Rightarrow> state" where
  "delete_file f s = (if disk s f \<noteq> None then s\<lparr>disk := (disk s)(f := None)\<rparr> else s)"

section \<open>The agent's document operations (example_six/backend/agent.py)\<close>

text \<open>
  A call on the vector index is recorded, then raises or takes effect.  \<open>insert\<close> adds an
  entry, \<open>delete_ref_doc\<close> removes the entries of an identifier, \<open>update_ref_doc\<close> replaces
  them.  The first component of the result is the message of the exception, if one is raised.
\<close>

definition index_insert :: "env \<Rightarrow> Document \<Rightarrow> state \<Rightarrow> string option \<times> state" where
  "index_insert e d s =
     (let s1 = s\<lparr>calls := calls s @ [Insert (d_doc_id d)]\<rparr> in
      case index_fault e (Insert (d_doc_id d)) of
        Some m \<Rightarrow> (Some m, s1)
      | None \<Rightarrow> (None, s1\<lparr>index := index s1 @ [(d_doc_id d, d_text d)]\<rparr>))"

definition index_update_ref_doc :: "env \<Rightarrow> Document \<Rightarrow> state \<Rightarrow> string option \<times> state" where
  "index_update_ref_doc e d s =
     (let s1 = s\<lparr>calls := calls s @ [UpdateRefDoc (d_doc_id d)]\<rparr> in
      case index_fault e (UpdateRefDoc (d_doc_id d)) of
        Some m \<Rightarrow> (Some m, s1)
      | None \<Rightarrow>
          (None, s1\<lparr>index := filter (\<lambda>x. fst x \<noteq> d_doc_id d) (index s1)
                                @ [(d_doc_id d, d_text d)]\<rparr>))"

definition index_delete_ref_doc :: "env \<Rightarrow> string \<Rightarrow> state \<Rightarrow> string option \<times> state" where
  "index_delete_ref_doc e i s =
     (let s1 = s\<lparr>calls := calls s @ [DeleteRefDoc i]\<rparr> in
      case index_fault e (DeleteRefDoc i) of
        Some m \<Rightarrow> (Some m, s1)
      | None \<Rightarrow> (None, s1\<lparr>index := filter (\<lambda>x. fst x \<noteq> i) (index s1)\<rparr>))"

text \<open>The loop \<open>for doc in documents: self.index.insert(doc)\<close>; an exception leaves it.\<close>

fun insert_all :: "env \<Rightarrow> Document list \<Rightarrow> state \<Rightarrow> string option \<times> state" where
  "insert_all e [] s = (None, s)"
| "insert_all e (d # ds) s =
     (case index_insert e d s of
        (Some m, s') \<Rightarrow> (Some m, s')
      | (None, s') \<Rightarrow> insert_all e ds s')"

text \<open>
  \<open>add_file_context_to_agent\<close>: the result is the boolean returned, or the message of an
  exception that leaves the method (it has no handler of its own).
\<close>

definition add_file_context_to_agent ::
  "env \<Rightarrow> string \<Rightarrow> state \<Rightarrow> (string + bool) \<times> state" where
  "add_file_context_to_agent e filepath s =
     (case disk s filepath of
        Some content \<Rightarrow>
          (case load_data e filepath content of
             Inl m \<Rightarrow> (Inl m, s)
           | Inr documents \<Rightarrow>
               (let s1 = s\<lparr>table := create_document_session e documents (table s)\<rparr> in
                case insert_all e documents s1 of
                  (Some m, s2) \<Rightarrow> (Inl m, s2)
                | (None, s2) \<Rightarrow> (Inr True, s2)))
      | None \<Rightarrow> (Inr False, s))"

text \<open>
  The loop of \<open>update_file_context_in_agent\<close>: each document is given the identifier
  \<open>doc_id\<close> and then sent to \<open>update_ref_doc\<close>.  The documents are returned as the loop left
  them (those before an exception carry the new identifier).
\<close>

fun update_all ::
  "env \<Rightarrow> string \<Rightarrow> Document list \<Rightarrow> state \<Rightarrow> string option \<times> Document list \<times> state" where
  "update_all e i [] s = (None, [], s)"
| "update_all e i (d # ds) s =
     (let d' = d\<lparr>d_doc_id := i\<rparr> in
      case index_update_ref_doc e d' s of
        (Some m, s') \<Rightarrow> (Some m, d' # ds, s')
      | (None, s') \<Rightarrow>
          (case update_all e i ds s' of (r, ds', s'') \<Rightarrow> (r, d' # ds', s'')))"

definition update_file_context_in_agent ::
  "env \<Rightarrow> string \<Rightarrow> string \<Rightarrow> state \<Rightarrow> (string + bool) \<times> state" where
  "update_file_context_in_agent e filepath i s =
     (case disk s filepath of
        Some content \<Rightarrow>
          (case load_data e filepath content of
             Inl m \<Rightarrow> (Inl m, s)
           | Inr updated_documents \<Rightarrow>
               (case update_all e i updated_documents s of
                  (Some m, ds, s1) \<Rightarrow> (Inl m, s1)
                | (None, ds, s1) \<Rightarrow>
                    (Inr True, s1\<lparr>table := create_document_session e ds (table s1)\<rparr>)))
      | None \<Rightarrow> (Inr False, s))"

text \<open>
  \<open>delete_file_context_in_agent\<close>: the whole body is in a handler that returns \<open>False\<close>.  The
  boolean that \<open>delete_document_metadata_by_doc_id\<close> returns is not looked at.
\<close>

definition delete_file_context_in_agent :: "env \<Rightarrow> string \<Rightarrow> state \<Rightarrow> bool \<times> state" where
  "delete_file_context_in_agent e i s =
     (case index_delete_ref_doc e i s of
        (Some m, s1) \<Rightarrow> (False, s1)
      | (None, s1) \<Rightarrow>
          (case delete_document_metadata_by_doc_id e i (table s1) of
             (deleted, tbl') \<Rightarrow> (True, s1\<lparr>table := tbl'\<rparr>)))"

section \<open>The endpoints (example_six/backend/main.py)\<close>

definition upload_file :: "env \<Rightarrow> string \<Rightarrow> string \<Rightarrow> state \<Rightarrow> response \<times> state" where
  "upload_file e f content s =
     (case check_document_exists_with_filename e (table s) f of
        Inl m \<Rightarrow> ([(''error'', m), (''status'', ''upload file failed'')], s)
      | Inr exists_in_db \<Rightarrow>
          if exists_in_db then
            ([(''filename'', f),
              (''error'', ''File already exist in database. Please use update.''),
              (''status'', ''failed'')], s)
          else
            (case save_file_to_data_folder e f content s of
               (Some error_msg, s1) \<Rightarrow>
                 ([(''error'', error_msg),
                   (''status'', ''writing file into '' @ str_path f @ '' failed'')], s1)
             | (None, s1) \<Rightarrow>
                 if agent_instance s1 then
                   (case add_file_context_to_agent e f s1 of
                      (Inl m, s2) \<Rightarrow>
                        ([(''error'', m), (''status'', ''upload file failed'')], s2)
                    | (Inr store_doc_in_agent, s2) \<Rightarrow>
                        if store_doc_in_agent then
                          ([(''filename'', f),
                            (''message'', ''File saved and indexed successfully''),
                            (''file_path'', str_path f)], s2)
                        else
                          ([(''filename'', f),
                            (''message'', ''File saved but indexing failed''),
                            (''file_path'', str_path f)], s2))
                 else
                   ([(''filename'', f),
                     (''message'', ''File saved but agent not initialized''),
                     (''file_path'', str_path f)], s1)))"

definition update_file :: "env \<Rightarrow> string \<Rightarrow> string \<Rightarrow> state \<Rightarrow> response \<times> state" where
  "update_file e f content s =
     (case check_document_exists_with_filename e (table s) f of
        Inl m \<Rightarrow> ([(''error'', m), (''status'', ''update file failed'')], s)
      | Inr exists_in_db \<Rightarrow>
          if \<not> exists_in_db then
            ([(''filename'', f),
              (''message'', ''File does not exist in database. Please upload first.'')], s)
          else
            (case get_doc_id_from_filename e (table s) f of
               Inl m \<Rightarrow> ([(''error'', m), (''status'', ''update file failed'')], s)
             | Inr None \<Rightarrow>
                 ([(''filename'', f),
                   (''message'', ''Could not retrieve document ID from filename.'')], s)
             | Inr (Some i) \<Rightarrow>
                 if i = [] then
                   ([(''filename'', f),
                     (''message'', ''Could not retrieve document ID from filename.'')], s)
                 else
                   (case save_file_to_data_folder e f content s of
                      (Some error_msg, s1) \<Rightarrow>
                        ([(''error'', error_msg),
                          (''status'', ''writing file into '' @ str_path f @ '' failed'')], s1)
                    | (None, s1) \<Rightarrow>
                        if agent_instance s1 then
                          (case update_file_context_in_agent e f i s1 of
                             (Inl m, s2) \<Rightarrow>
                               ([(''error'', m), (''status'', ''update file failed'')], s2)
                           | (Inr update_doc_in_agent, s2) \<Rightarrow>
                               if update_doc_in_agent then
                                 ([(''filename'', f),
                                   (''message'', ''File updated and re-indexed successfully''),
                                   (''file_path'', str_path f)], s2)
                               else
                                 ([(''filename'', f),
                                   (''message'', ''File updated but re-indexing failed''),
                                   (''file_path'', str_path f)], s2))
                        else
                          ([(''filename'', f),
                            (''message'', ''File updated but agent not initialized''),
                            (''file_path'', str_path f)], s1))))"

definition delete_file_endpoint :: "env \<Rightarrow> string \<Rightarrow> state \<Rightarrow> response \<times> state" where
  "delete_file_endpoint e f s =
     (case get_doc_id_from_filename e (table s) f of
        Inl m \<Rightarrow> ([(''error'', m), (''status'', ''delete file failed'')], s)
      | Inr None \<Rightarrow>
          ([(''filename'', f),
            (''message'', ''Could not retrieve document ID from filename.'')], s)
      | Inr (Some i) \<Rightarrow>
          if i = [] then
            ([(''filename'', f),
              (''message'', ''Could not retrieve document ID from filename.'')], s)
          else if agent_instance s then
            (case delete_file_context_in_agent e i s of
               (delete_in_agent, s1) \<Rightarrow>
                 if \<not> delete_in_agent then
                   ([(''filename'', f),
                     (''message'', ''Failed to delete from vector store.'')], s1)
                 else
                   ([(''filename'', f),
                     (''message'', ''File deleted successfully from disk and vector store.'')],
                    delete_file f s1))
          else
            ([(''filename'', f),
              (''message'', ''File deleted successfully from disk and vector store.'')],
             delete_file f s))"

text \<open>Any number of updates of one filename, each in its own environment and with its own content.\<close>

fun update_many :: "(env \<times> string) list \<Rightarrow> string \<Rightarrow> state \<Rightarrow> state" where
  "update_many [] f s = s"
| "update_many ((e, content) # us) f s = update_many us f (snd (update_file e f content s))"

section \<open>The quality evaluator (example_six/backend/context_evaluator.py)\<close>

text \<open>
  What \<open>json.loads\<close> returns.  The type \<open>'f\<close> is the machine's floating-point type, with
  whatever values it has (also infinities and not-a-number); nothing is assumed about it.
  An object holds each key once.
\<close>

datatype 'f json =
  JNull | JBool bool | JInt int | JFloat 'f | JStr string
  | JArr "'f json list" | JObj "(string \<times> 'f json) list"

text \<open>
  The library and the machine arithmetic the evaluator uses, as parameters: the two
  regular-expression searches of \<open>_extract_json\<close> (the first yields its group 1, the second
  the whole match), \<open>json.loads\<close> (\<open>None\<close>: it raises \<open>JSONDecodeError\<close>), \<open>float\<close> on a value
  that is not a float already (an integer, a boolean, a string, anything else), the
  completion service, the float that a decimal literal of the source denotes, and the
  product, the sum and the comparison \<open>>=\<close> of floats.  \<open>Inl\<close> carries the message of the
  exception raised.
\<close>

record 'f pylib =
  re_search_fenced :: "string \<Rightarrow> string option"
  re_search_object :: "string \<Rightarrow> string option"
  json_loads :: "string \<Rightarrow> 'f json option"
  float_other :: "'f json \<Rightarrow> string + 'f"
  acomplete :: "string \<Rightarrow> string + string"
  float_lit :: "real \<Rightarrow> 'f"
  fmul :: "'f \<Rightarrow> 'f \<Rightarrow> 'f"
  fadd :: "'f \<Rightarrow> 'f \<Rightarrow> 'f"
  fge :: "'f \<Rightarrow> 'f \<Rightarrow> bool"

text \<open>The text that \<open>_extract_json\<close> hands to \<open>json.loads\<close>.\<close>

definition json_candidate :: "'f pylib \<Rightarrow> string \<Rightarrow> string" where
  "json_candidate lib text =
     (case re_search_fenced lib text of
        Some g \<Rightarrow> g
      | None \<Rightarrow> (case re_search_object lib text of Some g \<Rightarrow> g | None \<Rightarrow> text))"

definition extract_json :: "'f pylib \<Rightarrow> string \<Rightarrow> 'f json" where
  "extract_json lib text =
     (case json_loads lib (json_candidate lib text) of
        Some v \<Rightarrow> v
      | None \<Rightarrow> JObj [])"

fun type_name :: "'f json \<Rightarrow> string" where
  "type_name JNull = ''NoneType''"
| "type_name (JBool b) = ''bool''"
| "type_name (JInt n) = ''int''"
| "type_name (JFloat x) = ''float''"
| "type_name (JStr s) = ''str''"
| "type_name (JArr xs) = ''list''"
| "type_name (JObj kvs) = ''dict''"

definition quoted :: "string \<Rightarrow> string" where
  "quoted s = [CHR 0x27] @ s @ [CHR 0x27]"

text \<open>\<open>result.get(k, default)\<close>: only a dictionary has the method.\<close>

fun dict_get :: "'f json \<Rightarrow> string \<Rightarrow> 'f json \<Rightarrow> string + 'f json" where
  "dict_get (JObj kvs) k dflt = Inr (case map_of kvs k of Some v \<Rightarrow> v | None \<Rightarrow> dflt)"
| "dict_get v k dflt =
     Inl (quoted (type_name v) @ '' object has no attribute '' @ quoted ''get'')"

text \<open>\<open>float(x)\<close>: a float is returned as it is; every other value is the library's matter.\<close>

fun py_float :: "'f pylib \<Rightarrow> 'f json \<Rightarrow> string + 'f" where
  "py_float lib (JFloat x) = Inr x"
| "py_float lib v = float_other lib v"

definition lines_nl :: "string list \<Rightarrow> string" where
  "lines_nl ls = concat (map (\<lambda>l. l @ [CHR 0x0A]) ls)"

definition relevance_prompt :: "string \<Rightarrow> string \<Rightarrow> string" where
  \<open>relevance_prompt query context = lines_nl
     [''Evaluate the relevance of the following context to the query.'',
      '''',
      ''Query: '' @ query,
      '''',
      ''Context: '' @ context,
      '''',
      ''Rate the relevance on a scale of 0.0 to 1.0, where:'',
      ''- 1.0 = Highly relevant, directly answers the query'',
      ''- 0.5 = Somewhat relevant, partially addresses the query'',
      ''- 0.0 = Not relevant, does not address the query'',
      '''',
      ''Respond in JSON format:'',
      ''{'',
      ''    "score": <float between 0.0 and 1.0>,'',
      ''    "explanation": "<brief explanation of the score>",'',
      ''    "key_points": ["<list of key points from context>"]'',
      ''}'']\<close>

definition completeness_prompt :: "string \<Rightarrow> string \<Rightarrow> string" where
  \<open>completeness_prompt query context = lines_nl
     [''Evaluate the completeness of the following context in answering the query.'',
      '''',
      ''Query: '' @ query,
      '''',
      ''Context: '' @ context,
      '''',
      ''Rate the completeness on a scale of 0.0 to 1.0, where:'',
      ''- 1.0 = Complete answer, all aspects covered'',
      ''- 0.5 = Partial answer, some aspects missing'',
      ''- 0.0 = Incomplete answer, major aspects missing'',
      '''',
      ''Respond in JSON format:'',
      ''{'',
      ''    "score": <float between 0.0 and 1.0>,'',
      ''    "explanation": "<brief explanation>",'',
      ''    "missing_aspects": ["<list of missing aspects if any>"]'',
      ''}'']\<close>

record 'f relevance_report =
  relevance_score :: 'f
  relevance_explanation :: "'f json"
  key_points :: "'f json"

record 'f completeness_report =
  completeness_score :: 'f
  completeness_explanation :: "'f json"
  missing_aspects :: "'f json"

record 'f quality_report =
  overall_quality_score :: 'f
  relevance :: "'f relevance_report"
  completeness :: "'f completeness_report"
  recommendation :: string

text \<open>
  The \<open>try\<close> block of \<open>evaluate_relevance\<close>: \<open>Inl\<close> is an exception raised in it, with its
  message.
\<close>

definition relevance_try ::
  "'f pylib \<Rightarrow> string \<Rightarrow> string \<Rightarrow> string + 'f relevance_report" where
  "relevance_try lib query context =
     (case acomplete lib (relevance_prompt query context) of
        Inl m \<Rightarrow> Inl m
      | Inr response \<Rightarrow>
          (let result = extract_json lib response in
           case dict_get result ''score'' (JFloat (float_lit lib 0.0)) of
             Inl m \<Rightarrow> Inl m
           | Inr sc \<Rightarrow>
               (case py_float lib sc of
                  Inl m \<Rightarrow> Inl m
                | Inr x \<Rightarrow>
                    (case dict_get result ''explanation'' (JStr '''') of
                       Inl m \<Rightarrow> Inl m
                     | Inr ex \<Rightarrow>
                         (case dict_get result ''key_points'' (JArr []) of
                            Inl m \<Rightarrow> Inl m
                          | Inr kp \<Rightarrow>
                              Inr \<lparr> relevance_score = x, relevance_explanation = ex,
                                    key_points = kp \<rparr>)))))"

text \<open>
  \<open>evaluate_relevance\<close> with its handler.  The result is a sum as well, \<open>Inl\<close> standing for
  an exception that reaches the caller.
\<close>

definition evaluate_relevance ::
  "'f pylib \<Rightarrow> string \<Rightarrow> string \<Rightarrow> string + 'f relevance_report" where
  "evaluate_relevance lib query context =
     (case relevance_try lib query context of
        Inr r \<Rightarrow> Inr r
      | Inl m \<Rightarrow>
          Inr \<lparr> relevance_score = float_lit lib 0.0,
                relevance_explanation = JStr (''Evaluation error: '' @ m),
                key_points = JArr [] \<rparr>)"

definition completeness_try ::
  "'f pylib \<Rightarrow> string \<Rightarrow> string \<Rightarrow> string + 'f completeness_report" where
  "completeness_try lib query context =
     (case acomplete lib (completeness_prompt query context) of
        Inl m \<Rightarrow> Inl m
      | Inr response \<Rightarrow>
          (let result = extract_json lib response in
           case dict_get result ''score'' (JFloat (float_lit lib 0.0)) of
             Inl m \<Rightarrow> Inl m
           | Inr sc \<Rightarrow>
               (case py_float lib sc of
                  Inl m \<Rightarrow> Inl m
                | Inr x \<Rightarrow>
                    (case dict_get result ''explanation'' (JStr '''') of
                       Inl m \<Rightarrow> Inl m
                     | Inr ex \<Rightarrow>
                         (case dict_get result ''missing_aspects'' (JArr []) of
                            Inl m \<Rightarrow> Inl m
                          | Inr ma \<Rightarrow>
                              Inr \<lparr> completeness_score = x, completeness_explanation = ex,
                                    missing_aspects = ma \<rparr>)))))"

definition evaluate_completeness ::
  "'f pylib \<Rightarrow> string \<Rightarrow> string \<Rightarrow> string + 'f completeness_report" where
  "evaluate_completeness lib query context =
     (case completeness_try lib query context of
        Inr r \<Rightarrow> Inr r
      | Inl m \<Rightarrow>
          Inr \<lparr> completeness_score = float_lit lib 0.0,
                completeness_explanation = JStr (''Evaluation error: '' @ m),
                missing_aspects = JArr [] \<rparr>)"

text \<open>
  \<open>_get_recommendation\<close>: the comparisons are the machine's, on floats, in the order of the
  source.
\<close>

definition get_recommendation :: "'f pylib \<Rightarrow> 'f \<Rightarrow> string" where
  "get_recommendation lib score =
     (if fge lib score (float_lit lib 0.8) then ''High quality context - suitable for use''
      else if fge lib score (float_lit lib 0.6) then
        ''Moderate quality - may need additional context''
      else if fge lib score (float_lit lib 0.4) then
        ''Low quality - consider refining query or adding more sources''
      else ''Poor quality - context may not be relevant or complete'')"

text \<open>
  \<open>evaluate_quality\<close>: the overall score is the machine's sum of the machine's products
  \<open>relevance_score * 0.6\<close> and \<open>completeness_score * 0.4\<close>.
\<close>

definition evaluate_quality ::
  "'f pylib \<Rightarrow> string \<Rightarrow> string \<Rightarrow> string + 'f quality_report" where
  "evaluate_quality lib query context =
     (case evaluate_relevance lib query context of
        Inl m \<Rightarrow> Inl m
      | Inr rel \<Rightarrow>
          (case evaluate_completeness lib query context of
             Inl m \<Rightarrow> Inl m
           | Inr com \<Rightarrow>
               (let overall_score =
                      fadd lib (fmul lib (relevance_score rel) (float_lit lib 0.6))
                               (fmul lib (completeness_score com) (float_lit lib 0.4))
                in Inr \<lparr> overall_quality_score = overall_score,
                         relevance = rel,
                         completeness = com,
                         recommendation = get_recommendation lib overall_score \<rparr>)))"

section \<open>The calculator tool (example_six/backend/mcp_tools.py)\<close>

definition allowed_chars :: "char set" where
  "allowed_chars = set ''0123456789+-*/.() ''"

text \<open>
  \<open>py_eval\<close> is Python's \<open>eval\<close> followed by the formatting of its value: the text of the
  value, or the message of the exception raised.  The second component of the result lists
  the expressions handed to \<open>eval\<close>.  \<open>calculator_try\<close> is the \<open>try\<close> block, \<open>execute\<close> adds
  the handler; \<open>Inl\<close> is an exception.
\<close>

definition calculator_try ::
  "(string \<Rightarrow> string + string) \<Rightarrow> string \<Rightarrow> (string + string) \<times> string list" where
  "calculator_try py_eval expression =
     (if \<not> list_all (\<lambda>c. c \<in> allowed_chars) expression
      then (Inr ''Error: Invalid characters in expression'', [])
      else
        (case py_eval expression of
           Inl m \<Rightarrow> (Inl m, [expression])
         | Inr result \<Rightarrow> (Inr (''Result: '' @ result), [expression])))"

definition execute ::
  "(string \<Rightarrow> string + string) \<Rightarrow> string \<Rightarrow> (string + string) \<times> string list" where
  "execute py_eval expression =
     (case calculator_try py_eval expression of
        (Inr out, evaluated) \<Rightarrow> (Inr out, evaluated)
      | (Inl m, evaluated) \<Rightarrow>
          (Inr (''Error calculating '' @ quoted expression @ '': '' @ m), evaluated))"

section \<open>Concrete environments and states\<close>

text \<open>A reader that yields one document per file and reports no modification time.\<close>

definition demo_doc :: "string \<Rightarrow> string \<Rightarrow> Document" where
  "demo_doc f content =
     \<lparr> d_doc_id = ''doc-'' @ f, d_text = content,
       md_file_name = Some f, md_file_type = Some ''text/plain'',
       md_file_path = Some (str_path f), md_file_size = Some (int (length content)),
       md_creation_date = Some 10, md_modified_at = None, md_accessed_at = None \<rparr>"

definition demo_env :: env where
  "demo_env =
     \<lparr> db_fault = None, commit_fault = None, save_fault = None,
       index_fault = (\<lambda>c. None),
       load_data = (\<lambda>f content. Inr [demo_doc f content]),
       date_default = Some 1 \<rparr>"

definition index_down_env :: env where
  "index_down_env = demo_env\<lparr>index_fault := (\<lambda>c. Some ''index unavailable'')\<rparr>"

definition commit_down_env :: env where
  "commit_down_env = demo_env\<lparr>commit_fault := Some ''commit refused''\<rparr>"

definition empty_state :: state where
  "empty_state =
     \<lparr> table = [], index = [], disk = Map.empty, calls = [], agent_instance = True \<rparr>"

definition demo_row :: DocumentMetadata where
  "demo_row =
     \<lparr> filename = ''a.txt'', doc_id = ''doc-a.txt'', mime_type = ''text/plain'',
       file_path = ''data/a.txt'', size_col = 5, creation_date = Some 10,
       modified_at = Some 100, accessed_at = Some 100 \<rparr>"

definition demo_state :: state where
  "demo_state =
     \<lparr> table = [demo_row], index = [(''doc-a.txt'', ''hello'')],
       disk = [''a.txt'' \<mapsto> ''hello''], calls = [], agent_instance = True \<rparr>"

text \<open>
  Floats written as the decimal numbers that print them.  The machine's product and sum are
  given on the operands used below, where they are rounded (\<open>0.7 * 0.4\<close> is
  \<open>0.27999999999999997\<close>, and \<open>0.12 + 0.27999999999999997\<close> is \<open>0.39999999999999997\<close>); on the
  other operands used below the exact result is the machine's.
\<close>

definition demo_fmul :: "real \<Rightarrow> real \<Rightarrow> real" where
  "demo_fmul a b = (if a = 0.7 \<and> b = 0.4 then 0.27999999999999997 else a * b)"

definition demo_fadd :: "real \<Rightarrow> real \<Rightarrow> real" where
  "demo_fadd a b =
     (if a = 0.12 \<and> b = 0.27999999999999997 then 0.39999999999999997 else a + b)"

text \<open>A library on a reply that holds no JSON: no search matches and nothing decodes.\<close>

definition plain_lib :: "real pylib" where
  "plain_lib =
     \<lparr> re_search_fenced = (\<lambda>t. None), re_search_object = (\<lambda>t. None),
       json_loads = (\<lambda>t. None), float_other = (\<lambda>v. Inl ''not a number''),
       acomplete = (\<lambda>p. Inr ''I cannot rate this.''),
       float_lit = (\<lambda>x. x), fmul = demo_fmul, fadd = demo_fadd, fge = (\<lambda>a b. a \<ge> b) \<rparr>"

text \<open>
  A library on two well-formed replies: the service rates the relevance 0.2 and the
  completeness 0.7.
\<close>

definition scoring_lib :: "real pylib" where
  \<open>scoring_lib =
     \<lparr> re_search_fenced = (\<lambda>t. None),
       re_search_object =
         (\<lambda>t. if t = ''{"score": 0.2}'' \<or> t = ''{"score": 0.7}'' then Some t else None),
       json_loads =
         (\<lambda>t. if t = ''{"score": 0.2}'' then Some (JObj [(''score'', JFloat 0.2)])
              else if t = ''{"score": 0.7}'' then Some (JObj [(''score'', JFloat 0.7)])
              else None),
       float_other = (\<lambda>v. Inl ''not a number''),
       acomplete =
         (\<lambda>p. if p = relevance_prompt ''q'' ''c'' then Inr ''{"score": 0.2}''
              else Inr ''{"score": 0.7}''),
       float_lit = (\<lambda>x. x), fmul = demo_fmul, fadd = demo_fadd, fge = (\<lambda>a b. a \<ge> b) \<rparr>\<close>

section \<open>Auxiliary facts\<close>

lemmas endpoint_defs =
  upload_file_def update_file_def delete_file_endpoint_def
  add_file_context_to_agent_def update_file_context_in_agent_def
  delete_file_context_in_agent_def delete_document_metadata_by_doc_id_def
  index_insert_def index_update_ref_doc_def index_delete_ref_doc_def
  save_file_to_data_folder_def delete_file_def str_path_def
  create_document_session_def db_commit_def new_row_def update_row_def
  check_document_exists_with_doc_id_def check_document_exists_with_filename_def
  get_doc_id_from_filename_def

lemmas demo_defs =
  demo_doc_def demo_env_def index_down_env_def commit_down_env_def
  empty_state_def demo_row_def demo_state_def

lemmas evaluator_defs =
  evaluate_quality_def evaluate_relevance_def evaluate_completeness_def
  relevance_try_def completeness_try_def extract_json_def json_candidate_def
  get_recommendation_def

lemma find_filename_iff:
  "(find (\<lambda>r. filename r = f) tbl \<noteq> None) = (f \<in> set (map filename tbl))"
  by (induction tbl) auto

lemma check_filename_eq:
  "check_document_exists_with_filename e tbl f =
     (case db_fault e of Some m \<Rightarrow> Inl m | None \<Rightarrow> Inr (f \<in> set (map filename tbl)))"
  unfolding check_document_exists_with_filename_def find_filename_iff ..

lemma get_doc_id_row:
  "get_doc_id_from_filename e tbl f = Inr (Some i) \<Longrightarrow>
     \<exists>r\<in>set tbl. filename r = f \<and> doc_id r = i"
  by (auto simp: get_doc_id_from_filename_def find_Some_iff split: option.splits)

lemma map_update_first:
  assumes "\<And>r. g (h r) = g r"
  shows "map g (update_first p h tbl) = map g tbl"
  by (induction tbl) (simp_all add: assms)

lemma find_doc_id_Some:
  "d \<in> set (map doc_id tbl) \<Longrightarrow> \<exists>r. find (\<lambda>r. doc_id r = d) tbl = Some r"
  by (induction tbl) auto

lemma find_doc_id_None:
  "d \<notin> set (map doc_id tbl) \<Longrightarrow> find (\<lambda>r. doc_id r = d) tbl = None"
  by (induction tbl) auto

subsection \<open>create_document_session on documents that are all in the table, or all new\<close>

lemma loop_existing_preserves:
  assumes g: "\<And>d r. g (update_row d r) = g r"
  shows "\<forall>d\<in>set ds. d_doc_id d \<in> set (map doc_id tbl) \<Longrightarrow>
         map g (create_document_session_loop e ds tbl []) = map g tbl
       \<and> map doc_id (create_document_session_loop e ds tbl []) = map doc_id tbl"
proof (induction ds arbitrary: tbl)
  case Nil
  then show ?case by (simp add: db_commit_def split: option.splits)
next
  case (Cons d ds)
  let ?p = "\<lambda>r. doc_id r = d_doc_id d"
  let ?t = "update_first ?p (update_row d) tbl"
  have ids: "map doc_id ?t = map doc_id tbl"
    by (rule map_update_first) (simp add: update_row_def)
  have gs: "map g ?t = map g tbl"
    by (rule map_update_first) (rule g)
  from Cons.prems have "d_doc_id d \<in> set (map doc_id tbl)" by simp
  from find_doc_id_Some[OF this] obtain r where r: "find ?p tbl = Some r" by blast
  then have ex: "find ?p tbl \<noteq> None" by simp
  from Cons.prems have rest: "\<forall>x\<in>set ds. d_doc_id x \<in> set (map doc_id ?t)"
    by (simp add: ids)
  show ?case
  proof (cases "db_fault e")
    case (Some m)
    then show ?thesis by (simp add: check_document_exists_with_doc_id_def)
  next
    case None
    show ?thesis
    proof (cases "commit_fault e")
      case (Some m)
      with None r ex show ?thesis
        by (simp add: check_document_exists_with_doc_id_def db_commit_def)
    next
      case cn: None
      have "create_document_session_loop e (d # ds) tbl []
              = create_document_session_loop e ds ?t []"
        using None cn r ex by (simp add: check_document_exists_with_doc_id_def db_commit_def)
      with Cons.IH[OF rest] ids gs show ?thesis by simp
    qed
  qed
qed

lemma loop_new_docs:
  "db_fault e = None \<Longrightarrow> \<forall>d\<in>set ds. d_doc_id d \<notin> set (map doc_id tbl) \<Longrightarrow>
   create_document_session_loop e ds tbl pend =
     (case db_commit e tbl (pend @ map (new_row e) ds) of Inl m \<Rightarrow> tbl | Inr tbl' \<Rightarrow> tbl')"
proof (induction ds arbitrary: pend)
  case Nil
  then show ?case by simp
next
  case (Cons d ds)
  from Cons.prems have "find (\<lambda>r. doc_id r = d_doc_id d) tbl = None"
    by (simp add: find_doc_id_None)
  with Cons show ?case
    by (simp add: check_document_exists_with_doc_id_def)
qed

lemma create_document_session_new:
  assumes "db_fault e = None" and "commit_fault e = None"
    and "distinct (map d_doc_id ds)"
    and "\<forall>d\<in>set ds. d_doc_id d \<notin> set (map doc_id tbl)"
  shows "create_document_session e ds tbl = tbl @ map (new_row e) ds"
proof -
  have "doc_id \<circ> new_row e = d_doc_id"
    by (rule ext) (simp add: new_row_def)
  then have "distinct (map doc_id (map (new_row e) ds))"
    using assms(3) by simp
  moreover have "list_all (\<lambda>p. doc_id p \<notin> set (map doc_id tbl)) (map (new_row e) ds)"
    using assms(4) by (simp add: list_all_iff new_row_def)
  ultimately show ?thesis
    using assms(1,2,4) loop_new_docs[of e ds tbl "[]"]
    by (simp add: create_document_session_def db_commit_def)
qed

subsection \<open>The loops over the adapter\<close>

lemma insert_all_frame:
  "insert_all e ds s = (r, s') \<Longrightarrow>
     table s' = table s \<and> disk s' = disk s
   \<and> (r = None) = (\<forall>d\<in>set ds. index_fault e (Insert (d_doc_id d)) = None)"
proof (induction ds arbitrary: s)
  case Nil
  then show ?case by auto
next
  case (Cons d ds)
  show ?case
  proof (cases "index_fault e (Insert (d_doc_id d))")
    case (Some m)
    with Cons.prems show ?thesis by (auto simp: index_insert_def)
  next
    case None
    let ?s1 = "s\<lparr>calls := calls s @ [Insert (d_doc_id d)],
                 index := index s @ [(d_doc_id d, d_text d)]\<rparr>"
    from None Cons.prems have "insert_all e ds ?s1 = (r, s')"
      by (simp add: index_insert_def)
    from Cons.IH[OF this] None show ?thesis by simp
  qed
qed

lemma update_all_frame:
  "update_all e i ds s = (r, ds', s') \<Longrightarrow>
     table s' = table s \<and> disk s' = disk s \<and> agent_instance s' = agent_instance s
   \<and> (\<exists>n. calls s' = calls s @ replicate n (UpdateRefDoc i))
   \<and> (r = None \<longrightarrow> (\<forall>d\<in>set ds'. d_doc_id d = i))"
proof (induction ds arbitrary: s r ds' s')
  case Nil
  then show ?case by simp
next
  case (Cons d ds)
  let ?d = "d\<lparr>d_doc_id := i\<rparr>"
  let ?s1 = "s\<lparr>calls := calls s @ [UpdateRefDoc i]\<rparr>"
  show ?case
  proof (cases "index_fault e (UpdateRefDoc i)")
    case (Some m)
    with Cons.prems have "s' = ?s1" "r = Some m"
      by (simp_all add: index_update_ref_doc_def)
    then show ?thesis
      by (auto intro: exI[of _ "Suc 0"])
  next
    case None
    let ?s2 = "?s1\<lparr>index := filter (\<lambda>x. fst x \<noteq> i) (index ?s1) @ [(i, d_text d)]\<rparr>"
    obtain r2 ds2 s2 where u: "update_all e i ds ?s2 = (r2, ds2, s2)"
      by (cases "update_all e i ds ?s2") auto
    with None Cons.prems have eq: "r = r2" "ds' = ?d # ds2" "s' = s2"
      by (simp_all add: index_update_ref_doc_def)
    from Cons.IH[OF u] obtain n where
      n: "calls s2 = calls ?s2 @ replicate n (UpdateRefDoc i)"
      and fr: "table s2 = table ?s2" "disk s2 = disk ?s2"
        "agent_instance s2 = agent_instance ?s2"
      and al: "r2 = None \<longrightarrow> (\<forall>d\<in>set ds2. d_doc_id d = i)"
      by blast
    have "calls s2 = calls s @ replicate (Suc n) (UpdateRefDoc i)"
      using n by simp
    then have "\<exists>k. calls s' = calls s @ replicate k (UpdateRefDoc i)"
      using eq by blast
    then show ?thesis using eq fr al by simp
  qed
qed

lemma update_all_ok:
  "update_all e i ds s = (r, ds', s') \<Longrightarrow>
     (r = None) = (ds = [] \<or> index_fault e (UpdateRefDoc i) = None)"
proof (induction ds arbitrary: s r ds' s')
  case Nil
  then show ?case by simp
next
  case (Cons d ds)
  show ?case
  proof (cases "index_fault e (UpdateRefDoc i)")
    case (Some m)
    with Cons.prems show ?thesis by (auto simp: index_update_ref_doc_def)
  next
    case None
    let ?s2 = "s\<lparr>calls := calls s @ [UpdateRefDoc i],
                 index := filter (\<lambda>x. fst x \<noteq> i) (index s) @ [(i, d_text d)]\<rparr>"
    obtain r2 ds2 s2 where u: "update_all e i ds ?s2 = (r2, ds2, s2)"
      by (cases "update_all e i ds ?s2") auto
    with None Cons.prems have "r = r2" by (simp add: index_update_ref_doc_def)
    with Cons.IH[OF u] None show ?thesis by simp
  qed
qed

subsection \<open>The agent's add and update\<close>

lemma add_file_context_table:
  assumes "disk s f = Some content" and "load_data e f content = Inr docs"
  shows "table (snd (add_file_context_to_agent e f s)) = create_document_session e docs (table s)
       \<and> (fst (add_file_context_to_agent e f s) = Inr True
            \<longleftrightarrow> (\<forall>d\<in>set docs. index_fault e (Insert (d_doc_id d)) = None))
       \<and> fst (add_file_context_to_agent e f s) \<noteq> Inr False"
proof -
  let ?s1 = "s\<lparr>table := create_document_session e docs (table s)\<rparr>"
  obtain r s2 where ia: "insert_all e docs ?s1 = (r, s2)"
    by (cases "insert_all e docs ?s1") auto
  from insert_all_frame[OF ia] assms ia show ?thesis
    by (cases r) (simp_all add: add_file_context_to_agent_def)
qed

lemma update_file_context_frame:
  assumes g: "\<And>d r. g (update_row d r) = g r"
    and i: "i \<in> set (map doc_id (table s))"
  shows "map g (table (snd (update_file_context_in_agent e f i s))) = map g (table s)
       \<and> (\<exists>n. calls (snd (update_file_context_in_agent e f i s))
                 = calls s @ replicate n (UpdateRefDoc i))"
proof (cases "disk s f")
  case None
  then show ?thesis by (simp add: update_file_context_in_agent_def)
next
  case (Some content)
  show ?thesis
  proof (cases "load_data e f content")
    case (Inl m)
    with Some show ?thesis by (simp add: update_file_context_in_agent_def)
  next
    case (Inr docs)
    obtain r ds s1 where u: "update_all e i docs s = (r, ds, s1)"
      by (cases "update_all e i docs s") auto
    note fr = update_all_frame[OF u]
    show ?thesis
    proof (cases r)
      case (Some m)
      with \<open>disk s f = Some content\<close> Inr u fr show ?thesis
        by (simp add: update_file_context_in_agent_def)
    next
      case None
      with fr i have "\<forall>d\<in>set ds. d_doc_id d \<in> set (map doc_id (table s1))"
        by simp
      from loop_existing_preserves[of g, OF g this, of e]
      have "map g (create_document_session e ds (table s1)) = map g (table s)"
        using fr by (simp add: create_document_session_def)
      with \<open>disk s f = Some content\<close> Inr u fr None show ?thesis
        by (simp add: update_file_context_in_agent_def)
    qed
  qed
qed

lemma update_file_frame:
  assumes g: "\<And>d r. g (update_row d r) = g r"
  shows "map g (table (snd (update_file e f content s))) = map g (table s)
       \<and> (\<forall>i. map_option doc_id (find (\<lambda>r. filename r = f) (table s)) = Some i \<longrightarrow>
            (\<exists>n. calls (snd (update_file e f content s))
                    = calls s @ replicate n (UpdateRefDoc i)))"
proof (cases "get_doc_id_from_filename e (table s) f")
  case (Inl m)
  then have "db_fault e = Some m"
    by (auto simp: get_doc_id_from_filename_def split: option.splits)
  then have "snd (update_file e f content s) = s"
    by (simp add: update_file_def check_document_exists_with_filename_def)
  then show ?thesis by simp
next
  case (Inr oi)
  then have db: "db_fault e = None"
    by (auto simp: get_doc_id_from_filename_def split: option.splits)
  have oi: "oi = map_option doc_id (find (\<lambda>r. filename r = f) (table s))"
    using Inr db by (auto simp: get_doc_id_from_filename_def split: option.splits)
  show ?thesis
  proof (cases "\<exists>i. oi = Some i \<and> i \<noteq> [] \<and> save_fault e = None \<and> agent_instance s")
    case False
    then have "table (snd (update_file e f content s)) = table s
             \<and> calls (snd (update_file e f content s)) = calls s"
      using Inr db
      by (auto simp: update_file_def check_document_exists_with_filename_def
            save_file_to_data_folder_def split: option.splits)
    then show ?thesis by simp
  next
    case True
    then obtain i where i: "oi = Some i" "i \<noteq> []" "save_fault e = None" "agent_instance s"
      by blast
    let ?s1 = "s\<lparr>disk := (disk s)(f \<mapsto> content)\<rparr>"
    from get_doc_id_row[of e "table s" f i] Inr i
    have mem: "i \<in> set (map doc_id (table ?s1))" by auto
    have ex: "find (\<lambda>r. filename r = f) (table s) \<noteq> None"
      using oi i by (cases "find (\<lambda>r. filename r = f) (table s)") simp_all
    have "snd (update_file e f content s) = snd (update_file_context_in_agent e f i ?s1)"
      using Inr db i ex
      by (simp add: update_file_def check_document_exists_with_filename_def
            save_file_to_data_folder_def split: prod.splits sum.splits)
    with update_file_context_frame[of g i ?s1 e f, OF g mem] oi i
    show ?thesis by auto
  qed
qed

lemma find_filename_cols:
  "map filename t1 = map filename t2 \<Longrightarrow> map doc_id t1 = map doc_id t2 \<Longrightarrow>
   map_option doc_id (find (\<lambda>r. filename r = f) t1)
     = map_option doc_id (find (\<lambda>r. filename r = f) t2)"
proof (induction t1 arbitrary: t2)
  case Nil
  then show ?case by simp
next
  case (Cons a t1)
  then obtain b t2' where "t2 = b # t2'" by (cases t2) auto
  with Cons show ?case by auto
qed

subsection \<open>What a reported success implies\<close>

lemma upload_success_index:
  assumes "agent_instance s"
    and "fst (upload_file e f content s) =
           [(''filename'', f), (''message'', ''File saved and indexed successfully''),
            (''file_path'', str_path f)]"
  shows "\<exists>docs. load_data e f content = Inr docs
               \<and> (\<forall>d\<in>set docs. index_fault e (Insert (d_doc_id d)) = None)"
proof -
  let ?s1 = "s\<lparr>disk := (disk s)(f \<mapsto> content)\<rparr>"
  from assms(2) have db: "db_fault e = None" and nf: "f \<notin> set (map filename (table s))"
    by (auto simp: upload_file_def check_filename_eq split: option.splits if_splits)
  from assms(2) db nf have sv: "save_fault e = None"
    by (auto simp: upload_file_def check_filename_eq save_file_to_data_folder_def
             split: option.splits)
  from assms db nf sv have a: "fst (add_file_context_to_agent e f ?s1) = Inr True"
    by (auto simp: upload_file_def check_filename_eq save_file_to_data_folder_def
             split: prod.splits sum.splits if_splits)
  show ?thesis
  proof (cases "load_data e f content")
    case (Inl m)
    with a show ?thesis by (simp add: add_file_context_to_agent_def)
  next
    case (Inr docs)
    have "disk ?s1 f = Some content" by simp
    from add_file_context_table[OF this Inr] a Inr show ?thesis by simp
  qed
qed

lemma update_success_index:
  assumes "agent_instance s"
    and "fst (update_file e f content s) =
           [(''filename'', f), (''message'', ''File updated and re-indexed successfully''),
            (''file_path'', str_path f)]"
  shows "\<exists>i docs. get_doc_id_from_filename e (table s) f = Inr (Some i)
               \<and> load_data e f content = Inr docs
               \<and> (docs = [] \<or> index_fault e (UpdateRefDoc i) = None)"
proof -
  let ?s1 = "s\<lparr>disk := (disk s)(f \<mapsto> content)\<rparr>"
  from assms(2) have db: "db_fault e = None" and nf: "f \<in> set (map filename (table s))"
    by (auto simp: update_file_def check_filename_eq split: option.splits if_splits)
  from assms(2) db nf obtain i where i: "get_doc_id_from_filename e (table s) f = Inr (Some i)"
      and ne: "i \<noteq> []"
    by (auto simp: update_file_def check_filename_eq split: option.splits if_splits sum.splits)
  from assms(2) db nf i ne have sv: "save_fault e = None"
    by (auto simp: update_file_def check_filename_eq save_file_to_data_folder_def
             split: option.splits)
  from assms db nf i ne sv have a: "fst (update_file_context_in_agent e f i ?s1) = Inr True"
    by (auto simp: update_file_def check_filename_eq save_file_to_data_folder_def
             split: prod.splits sum.splits if_splits)
  show ?thesis
  proof (cases "load_data e f content")
    case (Inl m)
    with a show ?thesis by (simp add: update_file_context_in_agent_def)
  next
    case (Inr docs)
    obtain r ds s2 where u: "update_all e i docs ?s1 = (r, ds, s2)"
      by (cases "update_all e i docs ?s1") auto
    with a Inr have "r = None"
      by (cases r) (simp_all add: update_file_context_in_agent_def)
    with update_all_ok[OF u] i Inr show ?thesis by simp
  qed
qed

lemma delete_success_index:
  assumes "agent_instance s"
    and "fst (delete_file_endpoint e f s) =
           [(''filename'', f),
            (''message'', ''File deleted successfully from disk and vector store.'')]"
  shows "\<exists>i. get_doc_id_from_filename e (table s) f = Inr (Some i)
            \<and> index_fault e (DeleteRefDoc i) = None"
proof (cases "get_doc_id_from_filename e (table s) f")
  case (Inl m)
  with assms(2) show ?thesis by (simp add: delete_file_endpoint_def)
next
  case (Inr oi)
  show ?thesis
  proof (cases oi)
    case None
    with Inr assms(2) show ?thesis by (simp add: delete_file_endpoint_def)
  next
    case (Some i)
    with Inr assms have ne: "i \<noteq> []"
      by (auto simp: delete_file_endpoint_def)
    have "index_fault e (DeleteRefDoc i) = None"
    proof (rule ccontr)
      assume "index_fault e (DeleteRefDoc i) \<noteq> None"
      then obtain m where "index_fault e (DeleteRefDoc i) = Some m" by blast
      with Inr Some ne assms show False
        by (simp add: delete_file_endpoint_def delete_file_context_in_agent_def
              index_delete_ref_doc_def)
    qed
    with Inr Some show ?thesis by simp
  qed
qed

subsection \<open>An update that reaches the adapter\<close>

lemma update_all_success:
  "index_fault e (UpdateRefDoc i) = None \<Longrightarrow>
   update_all e i ds s =
     (None, map (\<lambda>d. d\<lparr>d_doc_id := i\<rparr>) ds,
      s\<lparr>calls := calls s @ replicate (length ds) (UpdateRefDoc i),
        index := (if ds = [] then index s
                  else filter (\<lambda>x. fst x \<noteq> i) (index s) @ [(i, d_text (last ds))])\<rparr>)"
proof (induction ds arbitrary: s)
  case Nil
  then show ?case by simp
next
  case (Cons d ds)
  let ?s2 = "s\<lparr>calls := calls s @ [UpdateRefDoc i],
               index := filter (\<lambda>x. fst x \<noteq> i) (index s) @ [(i, d_text d)]\<rparr>"
  have step: "index_update_ref_doc e (d\<lparr>d_doc_id := i\<rparr>) s = (None, ?s2)"
    using Cons.prems by (simp add: index_update_ref_doc_def)
  have rp: "[UpdateRefDoc i] @ replicate (length ds) (UpdateRefDoc i)
              = replicate (Suc (length ds)) (UpdateRefDoc i)"
    by simp
  show ?case
    using step Cons.IH[OF Cons.prems, of ?s2] rp by (cases ds) simp_all
qed

lemma update_file_context_agent:
  "agent_instance (snd (update_file_context_in_agent e f i s)) = agent_instance s"
proof (cases "disk s f")
  case None
  then show ?thesis by (simp add: update_file_context_in_agent_def)
next
  case (Some content)
  show ?thesis
  proof (cases "load_data e f content")
    case (Inl m)
    with Some show ?thesis by (simp add: update_file_context_in_agent_def)
  next
    case (Inr docs)
    obtain r ds s1 where u: "update_all e i docs s = (r, ds, s1)"
      by (cases "update_all e i docs s") auto
    from update_all_frame[OF u] Some Inr u show ?thesis
      by (cases r) (simp_all add: update_file_context_in_agent_def)
  qed
qed

lemma update_file_agent:
  "agent_instance (snd (update_file e f content s)) = agent_instance s"
  by (auto simp: update_file_def check_document_exists_with_filename_def
        get_doc_id_from_filename_def save_file_to_data_folder_def
        update_file_context_agent split_beta
        split: option.splits sum.splits if_splits)

lemma update_many_agent:
  "agent_instance (update_many us f s) = agent_instance s"
proof (induction us arbitrary: s)
  case Nil
  then show ?case by simp
next
  case (Cons u us)
  obtain e content where "u = (e, content)" by (cases u)
  with Cons.IH[of "snd (update_file e f content s)"] show ?case
    by (simp add: update_file_agent)
qed

lemma update_file_success:
  assumes "db_fault e = None"
    and "map_option doc_id (find (\<lambda>r. filename r = f) (table s)) = Some i" and "i \<noteq> []"
    and "save_fault e = None" and "agent_instance s"
    and "load_data e f content = Inr docs"
    and "index_fault e (UpdateRefDoc i) = None"
  shows "fst (update_file e f content s) =
           [(''filename'', f), (''message'', ''File updated and re-indexed successfully''),
            (''file_path'', str_path f)]
       \<and> calls (snd (update_file e f content s))
           = calls s @ replicate (length docs) (UpdateRefDoc i)
       \<and> index (snd (update_file e f content s))
           = (if docs = [] then index s
              else filter (\<lambda>x. fst x \<noteq> i) (index s) @ [(i, d_text (last docs))])
       \<and> disk (snd (update_file e f content s)) f = Some content"
proof -
  let ?s1 = "s\<lparr>disk := (disk s)(f \<mapsto> content)\<rparr>"
  from assms(2) obtain r where r: "find (\<lambda>r. filename r = f) (table s) = Some r" "doc_id r = i"
    by auto
  then have ex: "find (\<lambda>r. filename r = f) (table s) \<noteq> None" by simp
  have g: "get_doc_id_from_filename e (table s) f = Inr (Some i)"
    using assms(1) r by (simp add: get_doc_id_from_filename_def)
  have c: "check_document_exists_with_filename e (table s) f = Inr True"
    using assms(1) ex by (simp add: check_document_exists_with_filename_def)
  have sv: "save_file_to_data_folder e f content s = (None, ?s1)"
    using assms(4) by (simp add: save_file_to_data_folder_def)
  note ua = update_all_success[OF assms(7), of docs ?s1]
  have ctx: "update_file_context_in_agent e f i ?s1 =
      (Inr True,
       ?s1\<lparr>calls := calls s @ replicate (length docs) (UpdateRefDoc i),
            index := (if docs = [] then index s
                      else filter (\<lambda>x. fst x \<noteq> i) (index s) @ [(i, d_text (last docs))]),
            table := create_document_session e (map (\<lambda>d. d\<lparr>d_doc_id := i\<rparr>) docs) (table s)\<rparr>)"
    using assms(6) ua by (simp add: update_file_context_in_agent_def)
  have "update_file e f content s =
      ([(''filename'', f), (''message'', ''File updated and re-indexed successfully''),
        (''file_path'', str_path f)],
       ?s1\<lparr>calls := calls s @ replicate (length docs) (UpdateRefDoc i),
            index := (if docs = [] then index s
                      else filter (\<lambda>x. fst x \<noteq> i) (index s) @ [(i, d_text (last docs))]),
            table := create_document_session e (map (\<lambda>d. d\<lparr>d_doc_id := i\<rparr>) docs) (table s)\<rparr>)"
    using g c sv ctx assms(3,5) by (simp add: update_file_def)
  then show ?thesis by simp
qed

lemma update_many_frame:
  "map doc_id (table (update_many us f s)) = map doc_id (table s)
 \<and> map filename (table (update_many us f s)) = map filename (table s)
 \<and> (\<forall>i. map_option doc_id (find (\<lambda>r. filename r = f) (table s)) = Some i \<longrightarrow>
      (\<exists>n. calls (update_many us f s) = calls s @ replicate n (UpdateRefDoc i)))"
proof (induction us arbitrary: s)
  case Nil
  then show ?case by simp
next
  case (Cons u us)
  obtain e content where u: "u = (e, content)" by (cases u)
  let ?s1 = "snd (update_file e f content s)"
  have d: "map doc_id (table ?s1) = map doc_id (table s)"
    using update_file_frame[of doc_id e f content s] by (simp add: update_row_def)
  have n: "map filename (table ?s1) = map filename (table s)"
    using update_file_frame[of filename e f content s] by (simp add: update_row_def)
  have c: "\<forall>i. map_option doc_id (find (\<lambda>r. filename r = f) (table s)) = Some i \<longrightarrow>
            (\<exists>n. calls ?s1 = calls s @ replicate n (UpdateRefDoc i))"
    using update_file_frame[of doc_id e f content s] by (simp add: update_row_def)
  have lk: "map_option doc_id (find (\<lambda>r. filename r = f) (table ?s1))
          = map_option doc_id (find (\<lambda>r. filename r = f) (table s))"
    by (rule find_filename_cols[OF n d])
  show ?case
  proof (intro conjI allI impI)
    show "map doc_id (table (update_many (u # us) f s)) = map doc_id (table s)"
      using Cons.IH[of ?s1] d u by simp
    show "map filename (table (update_many (u # us) f s)) = map filename (table s)"
      using Cons.IH[of ?s1] n u by simp
  next
    fix i assume i: "map_option doc_id (find (\<lambda>r. filename r = f) (table s)) = Some i"
    with c obtain n1 where n1: "calls ?s1 = calls s @ replicate n1 (UpdateRefDoc i)" by blast
    from i lk Cons.IH[of ?s1] obtain n2 where
      "calls (update_many us f ?s1) = calls ?s1 @ replicate n2 (UpdateRefDoc i)" by auto
    with n1 have "calls (update_many (u # us) f s)
                    = calls s @ replicate (n1 + n2) (UpdateRefDoc i)"
      using u by (simp add: replicate_add)
    then show "\<exists>n. calls (update_many (u # us) f s) = calls s @ replicate n (UpdateRefDoc i)" ..
  qed
qed

section \<open>The claims\<close>

subsection \<open>C1: adding a document\<close>

text \<open>
  C1 says that on \<open>addDocument\<close> the content goes to the vector index first and the metadata
  row is inserted only afterwards, so that an indexing error leaves no metadata row.
  \<open>add_file_context_to_agent\<close> calls \<open>create_document_session\<close> before the loop of
  \<open>index.insert\<close>.  With an index that raises, the upload of \<open>a.txt\<close> into the empty state
  reports the error, and the row of \<open>a.txt\<close> is in the table although the index is empty.
\<close>

theorem upload_index_failure_keeps_row:
  "fst (upload_file index_down_env ''a.txt'' ''hello'' empty_state) =
     [(''error'', ''index unavailable''), (''status'', ''upload file failed'')]
 \<and> map filename (table (snd (upload_file index_down_env ''a.txt'' ''hello'' empty_state)))
     = [''a.txt'']
 \<and> index (snd (upload_file index_down_env ''a.txt'' ''hello'' empty_state)) = []
 \<and> calls (snd (upload_file index_down_env ''a.txt'' ''hello'' empty_state))
     = [Insert ''doc-a.txt'']"
  by (simp add: endpoint_defs demo_defs)

text \<open>
  C1 as amended: for a filename without a record (store reachable, file saved, agent present,
  reader successful) the metadata table after the upload is what \<open>create_document_session\<close>
  made of it before any adapter call, whatever the adapter does; if an adapter call raises,
  the response is the error response \<open>upload file failed\<close>, and the rows written stay: with a
  working commit and fresh, distinct identifiers they are the table followed by one new row
  per document.
\<close>

theorem upload_metadata_before_index:
  assumes "f \<notin> set (map filename (table s))" and "db_fault e = None"
    and "save_fault e = None" and "agent_instance s"
    and "load_data e f content = Inr docs"
  shows "table (snd (upload_file e f content s)) = create_document_session e docs (table s)
       \<and> ((\<exists>d\<in>set docs. index_fault e (Insert (d_doc_id d)) \<noteq> None) \<longrightarrow>
            (\<exists>m. fst (upload_file e f content s) =
                   [(''error'', m), (''status'', ''upload file failed'')]))
       \<and> (commit_fault e = None \<and> distinct (map d_doc_id docs)
            \<and> (\<forall>d\<in>set docs. d_doc_id d \<notin> set (map doc_id (table s))) \<longrightarrow>
            table (snd (upload_file e f content s)) = table s @ map (new_row e) docs)"
proof -
  let ?s1 = "s\<lparr>disk := (disk s)(f \<mapsto> content)\<rparr>"
  obtain r s2 where a: "add_file_context_to_agent e f ?s1 = (r, s2)"
    by (cases "add_file_context_to_agent e f ?s1") auto
  have d: "disk ?s1 f = Some content" by simp
  note t = add_file_context_table[OF d assms(5)]
  have u: "upload_file e f content s =
       (case r of
          Inl m \<Rightarrow> ([(''error'', m), (''status'', ''upload file failed'')], s2)
        | Inr b \<Rightarrow>
            if b then ([(''filename'', f), (''message'', ''File saved and indexed successfully''),
                        (''file_path'', str_path f)], s2)
            else ([(''filename'', f), (''message'', ''File saved but indexing failed''),
                   (''file_path'', str_path f)], s2))"
    using assms(1-4) a
    by (simp add: upload_file_def check_filename_eq save_file_to_data_folder_def)
  have tb: "table (snd (upload_file e f content s)) = create_document_session e docs (table s)"
    using t a u by (cases r) (auto split: if_splits)
  have er: "(\<exists>d\<in>set docs. index_fault e (Insert (d_doc_id d)) \<noteq> None) \<longrightarrow>
            (\<exists>m. fst (upload_file e f content s) =
                   [(''error'', m), (''status'', ''upload file failed'')])"
  proof
    assume "\<exists>d\<in>set docs. index_fault e (Insert (d_doc_id d)) \<noteq> None"
    with t a have "r \<noteq> Inr True" "r \<noteq> Inr False" by auto
    then obtain m where "r = Inl m" by (cases r) auto
    with u show "\<exists>m. fst (upload_file e f content s) =
                   [(''error'', m), (''status'', ''upload file failed'')]" by simp
  qed
  show ?thesis
    using tb er create_document_session_new[of e docs "table s"] assms(2) by simp
qed

theorem upload_metadata_before_index_witness:
  "''b.txt'' \<notin> set (map filename (table demo_state))
 \<and> db_fault index_down_env = None \<and> save_fault index_down_env = None
 \<and> agent_instance demo_state
 \<and> load_data index_down_env ''b.txt'' ''bye'' = Inr [demo_doc ''b.txt'' ''bye'']
 \<and> index_fault index_down_env (Insert (d_doc_id (demo_doc ''b.txt'' ''bye''))) \<noteq> None
 \<and> commit_fault index_down_env = None
 \<and> d_doc_id (demo_doc ''b.txt'' ''bye'') \<notin> set (map doc_id (table demo_state))
 \<and> table (snd (upload_file index_down_env ''b.txt'' ''bye'' demo_state))
     = [demo_row, new_row index_down_env (demo_doc ''b.txt'' ''bye'')]
 \<and> fst (upload_file index_down_env ''b.txt'' ''bye'' demo_state)
     = [(''error'', ''index unavailable''), (''status'', ''upload file failed'')]"
  using upload_metadata_before_index
    [of "''b.txt''" demo_state index_down_env "''bye''" "[demo_doc ''b.txt'' ''bye'']"]
  by (simp add: endpoint_defs demo_defs)

subsection \<open>C2: a failed index deletion deletes nothing\<close>

text \<open>
  C2: when the filename has a record with a non-empty identifier, the agent exists and the
  adapter's deletion by identifier raises, \<open>delete_file_endpoint\<close> answers
  \<open>Failed to delete from vector store.\<close>, and the metadata table, the files on disk and the
  index are what they were; in particular the row of the filename is still there.
\<close>

theorem delete_index_failure_preserves:
  assumes "get_doc_id_from_filename e (table s) f = Inr (Some i)" and "i \<noteq> []"
    and "agent_instance s" and "index_fault e (DeleteRefDoc i) = Some m"
  shows "fst (delete_file_endpoint e f s) =
           [(''filename'', f), (''message'', ''Failed to delete from vector store.'')]
       \<and> table (snd (delete_file_endpoint e f s)) = table s
       \<and> disk (snd (delete_file_endpoint e f s)) = disk s
       \<and> index (snd (delete_file_endpoint e f s)) = index s
       \<and> (\<exists>r\<in>set (table (snd (delete_file_endpoint e f s))). filename r = f \<and> doc_id r = i)"
proof -
  have "delete_file_context_in_agent e i s = (False, s\<lparr>calls := calls s @ [DeleteRefDoc i]\<rparr>)"
    using assms(4) by (simp add: delete_file_context_in_agent_def index_delete_ref_doc_def)
  then have "delete_file_endpoint e f s =
       ([(''filename'', f), (''message'', ''Failed to delete from vector store.'')],
        s\<lparr>calls := calls s @ [DeleteRefDoc i]\<rparr>)"
    using assms(1-3) by (simp add: delete_file_endpoint_def)
  then show ?thesis using get_doc_id_row[OF assms(1)] by simp
qed

theorem delete_index_failure_preserves_witness:
  "get_doc_id_from_filename index_down_env (table demo_state) ''a.txt'' = Inr (Some ''doc-a.txt'')
 \<and> ''doc-a.txt'' \<noteq> [] \<and> agent_instance demo_state
 \<and> index_fault index_down_env (DeleteRefDoc ''doc-a.txt'') = Some ''index unavailable''
 \<and> fst (delete_file_endpoint index_down_env ''a.txt'' demo_state) =
     [(''filename'', ''a.txt''), (''message'', ''Failed to delete from vector store.'')]
 \<and> table (snd (delete_file_endpoint index_down_env ''a.txt'' demo_state)) = [demo_row]
 \<and> disk (snd (delete_file_endpoint index_down_env ''a.txt'' demo_state)) ''a.txt''
     = Some ''hello''
 \<and> index (snd (delete_file_endpoint index_down_env ''a.txt'' demo_state))
     = [(''doc-a.txt'', ''hello'')]"
  using delete_index_failure_preserves
    [of index_down_env demo_state "''a.txt''" "''doc-a.txt''" "''index unavailable''"]
  by (simp add: endpoint_defs demo_defs)

subsection \<open>C3: what a reported success stands for\<close>

text \<open>
  C3 says that success is reported only if both the call on the vector index and the call on
  the metadata store succeeded.  \<open>create_document_session\<close> catches every exception of the
  store, rolls back and returns nothing, so its caller cannot tell.  With a store that
  refuses the commit, the upload of \<open>a.txt\<close> into the empty state answers
  \<open>File saved and indexed successfully\<close>; the index holds the document and the metadata table
  is empty.
\<close>

theorem upload_reports_success_without_metadata:
  "fst (upload_file commit_down_env ''a.txt'' ''hello'' empty_state) =
     [(''filename'', ''a.txt''), (''message'', ''File saved and indexed successfully''),
      (''file_path'', ''data/a.txt'')]
 \<and> table (snd (upload_file commit_down_env ''a.txt'' ''hello'' empty_state)) = []
 \<and> index (snd (upload_file commit_down_env ''a.txt'' ''hello'' empty_state))
     = [(''doc-a.txt'', ''hello'')]"
  by (simp add: endpoint_defs demo_defs)

text \<open>
  C3 as amended: with the agent present, each of the three endpoints reports success only if
  the reader returned and every call it made on the vector index succeeded (for the deletion:
  the identifier was found and the deletion by identifier succeeded).  The outcome of the
  metadata store is not part of what an upload or an update reports.
\<close>

theorem success_requires_index_calls:
  assumes "agent_instance s"
  shows "(fst (upload_file e f content s) =
            [(''filename'', f), (''message'', ''File saved and indexed successfully''),
             (''file_path'', str_path f)] \<longrightarrow>
          (\<exists>docs. load_data e f content = Inr docs
                 \<and> (\<forall>d\<in>set docs. index_fault e (Insert (d_doc_id d)) = None)))
       \<and> (fst (update_file e f content s) =
            [(''filename'', f), (''message'', ''File updated and re-indexed successfully''),
             (''file_path'', str_path f)] \<longrightarrow>
          (\<exists>i docs. get_doc_id_from_filename e (table s) f = Inr (Some i)
                   \<and> load_data e f content = Inr docs
                   \<and> (docs = [] \<or> index_fault e (UpdateRefDoc i) = None)))
       \<and> (fst (delete_file_endpoint e f s) =
            [(''filename'', f),
             (''message'', ''File deleted successfully from disk and vector store.'')] \<longrightarrow>
          (\<exists>i. get_doc_id_from_filename e (table s) f = Inr (Some i)
              \<and> index_fault e (DeleteRefDoc i) = None))"
  using upload_success_index[OF assms] update_success_index[OF assms]
    delete_success_index[OF assms]
  by blast

theorem success_requires_index_calls_witness:
  "agent_instance empty_state \<and> agent_instance demo_state
 \<and> fst (upload_file demo_env ''a.txt'' ''hello'' empty_state) =
     [(''filename'', ''a.txt''), (''message'', ''File saved and indexed successfully''),
      (''file_path'', str_path ''a.txt'')]
 \<and> fst (update_file demo_env ''a.txt'' ''hello again'' demo_state) =
     [(''filename'', ''a.txt''), (''message'', ''File updated and re-indexed successfully''),
      (''file_path'', str_path ''a.txt'')]
 \<and> fst (delete_file_endpoint demo_env ''a.txt'' demo_state) =
     [(''filename'', ''a.txt''),
      (''message'', ''File deleted successfully from disk and vector store.'')]
 \<and> index_fault demo_env (Insert ''doc-a.txt'') = None
 \<and> index_fault demo_env (UpdateRefDoc ''doc-a.txt'') = None
 \<and> index_fault demo_env (DeleteRefDoc ''doc-a.txt'') = None"
  using success_requires_index_calls[of empty_state demo_env "''a.txt''" "''hello''"]
    success_requires_index_calls[of demo_state demo_env "''a.txt''" "''hello again''"]
  by (simp add: endpoint_defs demo_defs)

subsection \<open>C4: uploading a filename that has a record\<close>

text \<open>
  C4: when the filename has a row in the metadata table, \<open>upload_file\<close> changes nothing (table,
  index, disk and the list of adapter calls are the same state), and, the store answering
  the lookup, the response is the failure
  \<open>File already exist in database. Please use update.\<close>
\<close>

theorem upload_file_already_exists:
  assumes "f \<in> set (map filename (table s))"
  shows "snd (upload_file e f content s) = s
       \<and> (db_fault e = None \<longrightarrow>
            fst (upload_file e f content s) =
              [(''filename'', f),
               (''error'', ''File already exist in database. Please use update.''),
               (''status'', ''failed'')])"
  using assms
  by (simp add: upload_file_def check_filename_eq split: option.splits)

theorem upload_file_already_exists_witness:
  "''a.txt'' \<in> set (map filename (table demo_state)) \<and> db_fault demo_env = None
 \<and> snd (upload_file demo_env ''a.txt'' ''again'' demo_state) = demo_state
 \<and> calls (snd (upload_file demo_env ''a.txt'' ''again'' demo_state)) = []
 \<and> fst (upload_file demo_env ''a.txt'' ''again'' demo_state) =
     [(''filename'', ''a.txt''),
      (''error'', ''File already exist in database. Please use update.''),
      (''status'', ''failed'')]"
  using upload_file_already_exists[of "''a.txt''" demo_state demo_env "''again''"]
  by (simp add: demo_defs)

subsection \<open>C5: the document identifier under updates\<close>

text \<open>
  C5: after any number of updates of a filename, in any environments and with any contents,
  the column of document identifiers and the column of filenames of the metadata table are
  what they were, and every call made on the adapter is \<open>update_ref_doc\<close> with the identifier
  the filename had at the start.  A further update that reaches the adapter (the store
  answers, the file is saved, the agent exists, the reader returns, the adapter accepts)
  reports success, calls \<open>update_ref_doc\<close> once per document read, each time with that same
  identifier, leaves in the index under that identifier the new text in place of the old
  entries, and leaves the column of document identifiers as it was at the start.
\<close>

theorem update_preserves_document_id:
  "map doc_id (table (update_many us f s)) = map doc_id (table s)
 \<and> map filename (table (update_many us f s)) = map filename (table s)
 \<and> (\<forall>i. map_option doc_id (find (\<lambda>r. filename r = f) (table s)) = Some i \<longrightarrow>
      (\<exists>n. calls (update_many us f s) = calls s @ replicate n (UpdateRefDoc i)))
 \<and> (\<forall>i (e::env) content docs.
      map_option doc_id (find (\<lambda>r. filename r = f) (table s)) = Some i \<and> i \<noteq> []
      \<and> agent_instance s \<and> db_fault e = None \<and> save_fault e = None
      \<and> load_data e f content = Inr docs \<and> index_fault e (UpdateRefDoc i) = None \<longrightarrow>
        fst (update_file e f content (update_many us f s)) =
          [(''filename'', f), (''message'', ''File updated and re-indexed successfully''),
           (''file_path'', str_path f)]
      \<and> calls (snd (update_file e f content (update_many us f s)))
          = calls (update_many us f s) @ replicate (length docs) (UpdateRefDoc i)
      \<and> index (snd (update_file e f content (update_many us f s)))
          = (if docs = [] then index (update_many us f s)
             else filter (\<lambda>x. fst x \<noteq> i) (index (update_many us f s))
                    @ [(i, d_text (last docs))])
      \<and> disk (snd (update_file e f content (update_many us f s))) f = Some content
      \<and> map doc_id (table (snd (update_file e f content (update_many us f s))))
          = map doc_id (table s))"
proof -
  let ?sk = "update_many us f s"
  note fr = update_many_frame[of us f s]
  have lk: "map_option doc_id (find (\<lambda>r. filename r = f) (table ?sk))
          = map_option doc_id (find (\<lambda>r. filename r = f) (table s))"
    using fr by (intro find_filename_cols) simp_all
  have last: "\<forall>i (e::env) content docs.
      map_option doc_id (find (\<lambda>r. filename r = f) (table s)) = Some i \<and> i \<noteq> []
      \<and> agent_instance s \<and> db_fault e = None \<and> save_fault e = None
      \<and> load_data e f content = Inr docs \<and> index_fault e (UpdateRefDoc i) = None \<longrightarrow>
        fst (update_file e f content ?sk) =
          [(''filename'', f), (''message'', ''File updated and re-indexed successfully''),
           (''file_path'', str_path f)]
      \<and> calls (snd (update_file e f content ?sk))
          = calls ?sk @ replicate (length docs) (UpdateRefDoc i)
      \<and> index (snd (update_file e f content ?sk))
          = (if docs = [] then index ?sk
             else filter (\<lambda>x. fst x \<noteq> i) (index ?sk) @ [(i, d_text (last docs))])
      \<and> disk (snd (update_file e f content ?sk)) f = Some content
      \<and> map doc_id (table (snd (update_file e f content ?sk))) = map doc_id (table s)"
  proof (intro allI impI)
    fix i and e :: env and content docs
    assume h: "map_option doc_id (find (\<lambda>r. filename r = f) (table s)) = Some i \<and> i \<noteq> []
      \<and> agent_instance s \<and> db_fault e = None \<and> save_fault e = None
      \<and> load_data e f content = Inr docs \<and> index_fault e (UpdateRefDoc i) = None"
    have ag: "agent_instance ?sk" using h by (simp add: update_many_agent)
    have id: "map_option doc_id (find (\<lambda>r. filename r = f) (table ?sk)) = Some i"
      using h lk by simp
    have ok: "fst (update_file e f content ?sk) =
          [(''filename'', f), (''message'', ''File updated and re-indexed successfully''),
           (''file_path'', str_path f)]
      \<and> calls (snd (update_file e f content ?sk))
          = calls ?sk @ replicate (length docs) (UpdateRefDoc i)
      \<and> index (snd (update_file e f content ?sk))
          = (if docs = [] then index ?sk
             else filter (\<lambda>x. fst x \<noteq> i) (index ?sk) @ [(i, d_text (last docs))])
      \<and> disk (snd (update_file e f content ?sk)) f = Some content"
      using h by (intro update_file_success[OF _ id _ _ ag]) simp_all
    have "map doc_id (table (snd (update_file e f content ?sk))) = map doc_id (table ?sk)"
      using update_file_frame[of doc_id e f content ?sk] by (simp add: update_row_def)
    with fr have "map doc_id (table (snd (update_file e f content ?sk))) = map doc_id (table s)"
      by simp
    with ok show "fst (update_file e f content ?sk) =
          [(''filename'', f), (''message'', ''File updated and re-indexed successfully''),
           (''file_path'', str_path f)]
      \<and> calls (snd (update_file e f content ?sk))
          = calls ?sk @ replicate (length docs) (UpdateRefDoc i)
      \<and> index (snd (update_file e f content ?sk))
          = (if docs = [] then index ?sk
             else filter (\<lambda>x. fst x \<noteq> i) (index ?sk) @ [(i, d_text (last docs))])
      \<and> disk (snd (update_file e f content ?sk)) f = Some content
      \<and> map doc_id (table (snd (update_file e f content ?sk))) = map doc_id (table s)"
      by simp
  qed
  show ?thesis using fr last by (intro conjI) blast+
qed

theorem update_preserves_document_id_witness:
  "map_option doc_id (find (\<lambda>r. filename r = ''a.txt'') (table demo_state)) = Some ''doc-a.txt''
 \<and> ''doc-a.txt'' \<noteq> [] \<and> agent_instance demo_state
 \<and> db_fault demo_env = None \<and> save_fault demo_env = None
 \<and> load_data demo_env ''a.txt'' ''v5'' = Inr [demo_doc ''a.txt'' ''v5'']
 \<and> index_fault demo_env (UpdateRefDoc ''doc-a.txt'') = None
 \<and> map doc_id (table (update_many
       [(demo_env, ''v2''), (index_down_env, ''v3''), (commit_down_env, ''v4'')]
       ''a.txt'' demo_state)) = [''doc-a.txt'']
 \<and> calls (update_many
       [(demo_env, ''v2''), (index_down_env, ''v3''), (commit_down_env, ''v4'')]
       ''a.txt'' demo_state)
     = [UpdateRefDoc ''doc-a.txt'', UpdateRefDoc ''doc-a.txt'', UpdateRefDoc ''doc-a.txt'']
 \<and> index (update_many
       [(demo_env, ''v2''), (index_down_env, ''v3''), (commit_down_env, ''v4'')]
       ''a.txt'' demo_state) = [(''doc-a.txt'', ''v4'')]
 \<and> fst (update_file demo_env ''a.txt'' ''v5'' (update_many
       [(demo_env, ''v2''), (index_down_env, ''v3''), (commit_down_env, ''v4'')]
       ''a.txt'' demo_state)) =
     [(''filename'', ''a.txt''), (''message'', ''File updated and re-indexed successfully''),
      (''file_path'', ''data/a.txt'')]
 \<and> calls (snd (update_file demo_env ''a.txt'' ''v5'' (update_many
       [(demo_env, ''v2''), (index_down_env, ''v3''), (commit_down_env, ''v4'')]
       ''a.txt'' demo_state)))
     = [UpdateRefDoc ''doc-a.txt'', UpdateRefDoc ''doc-a.txt'', UpdateRefDoc ''doc-a.txt'',
        UpdateRefDoc ''doc-a.txt'']
 \<and> index (snd (update_file demo_env ''a.txt'' ''v5'' (update_many
       [(demo_env, ''v2''), (index_down_env, ''v3''), (commit_down_env, ''v4'')]
       ''a.txt'' demo_state))) = [(''doc-a.txt'', ''v5'')]
 \<and> map doc_id (table (snd (update_file demo_env ''a.txt'' ''v5'' (update_many
       [(demo_env, ''v2''), (index_down_env, ''v3''), (commit_down_env, ''v4'')]
       ''a.txt'' demo_state)))) = [''doc-a.txt'']"
  using update_preserves_document_id
    [of "[(demo_env, ''v2''), (index_down_env, ''v3''), (commit_down_env, ''v4'')]"
        "''a.txt''" demo_state]
  by (simp add: endpoint_defs demo_defs)

subsection \<open>C6: updating a filename that has no record\<close>

text \<open>
  C6: when the filename has no row in the metadata table, \<open>update_file\<close> changes nothing (the
  state after is the state before), and, the store answering the lookup, the response is
  \<open>File does not exist in database. Please upload first.\<close>
\<close>

theorem update_file_not_found:
  assumes "f \<notin> set (map filename (table s))"
  shows "snd (update_file e f content s) = s
       \<and> (db_fault e = None \<longrightarrow>
            fst (update_file e f content s) =
              [(''filename'', f),
               (''message'', ''File does not exist in database. Please upload first.'')])"
  using assms
  by (simp add: update_file_def check_filename_eq split: option.splits)

theorem update_file_not_found_witness:
  "''b.txt'' \<notin> set (map filename (table demo_state)) \<and> db_fault demo_env = None
 \<and> snd (update_file demo_env ''b.txt'' ''text'' demo_state) = demo_state
 \<and> fst (update_file demo_env ''b.txt'' ''text'' demo_state) =
     [(''filename'', ''b.txt''),
      (''message'', ''File does not exist in database. Please upload first.'')]"
  using update_file_not_found[of "''b.txt''" demo_state demo_env "''text''"]
  by (simp add: demo_defs)

subsection \<open>C7: the timestamps under an update\<close>

text \<open>
  C7 says that a successful update refreshes \<open>modifiedAt\<close> to a timestamp strictly later than
  the one before, updates the size and leaves \<open>createdAt\<close> as it was.  The update assigns
  \<open>metadata.get("modified_at", old value)\<close>, and the documents that the directory reader
  yields carry no entry \<open>modified_at\<close>.  Evaluated on the update of \<open>a.txt\<close> with such a
  document: the response is the success response, the size becomes 11, \<open>creation_date\<close>
  stays 10, and \<open>modified_at\<close> is 100 before and 100 after, so the refresh that the
  assignment attempts does not take place.
\<close>

theorem update_keeps_modified_at:
  "fst (update_file demo_env ''a.txt'' ''hello world'' demo_state) =
     [(''filename'', ''a.txt''), (''message'', ''File updated and re-indexed successfully''),
      (''file_path'', ''data/a.txt'')]
 \<and> md_modified_at (demo_doc ''a.txt'' ''hello world'') = None
 \<and> map modified_at (table demo_state) = [Some 100]
 \<and> map modified_at (table (snd (update_file demo_env ''a.txt'' ''hello world'' demo_state)))
     = [Some 100]
 \<and> map size_col (table (snd (update_file demo_env ''a.txt'' ''hello world'' demo_state)))
     = [11]
 \<and> map creation_date (table (snd (update_file demo_env ''a.txt'' ''hello world'' demo_state)))
     = [Some 10]"
  by (simp add: endpoint_defs demo_defs)

subsection \<open>C8: the overall score and its band\<close>

text \<open>
  C8: \<open>evaluate_quality\<close> returns a report whose two sub-reports are those of
  \<open>evaluate_relevance\<close> and \<open>evaluate_completeness\<close>, whose overall score is the relevance
  score times 0.6 plus the completeness score times 0.4 in the machine's floating-point
  arithmetic, and whose recommendation is decided by the machine's comparisons of that
  overall score with fixed thresholds: high when it is at least 0.8, else moderate when at
  least 0.6, else low when at least 0.4, else poor.  It holds for every floating-point
  arithmetic, whatever it rounds to and whatever it answers on a not-a-number.
\<close>

theorem evaluate_quality_weighted_bands:
  "\<exists>r. evaluate_quality lib query context = Inr r
     \<and> evaluate_relevance lib query context = Inr (relevance r)
     \<and> evaluate_completeness lib query context = Inr (completeness r)
     \<and> overall_quality_score r
         = fadd lib (fmul lib (relevance_score (relevance r)) (float_lit lib 0.6))
                    (fmul lib (completeness_score (completeness r)) (float_lit lib 0.4))
     \<and> recommendation r =
         (if fge lib (overall_quality_score r) (float_lit lib 0.8)
          then ''High quality context - suitable for use''
          else if fge lib (overall_quality_score r) (float_lit lib 0.6)
          then ''Moderate quality - may need additional context''
          else if fge lib (overall_quality_score r) (float_lit lib 0.4)
          then ''Low quality - consider refining query or adding more sources''
          else ''Poor quality - context may not be relevant or complete'')
     \<and> (recommendation r = ''High quality context - suitable for use''
          \<longleftrightarrow> fge lib (overall_quality_score r) (float_lit lib 0.8))
     \<and> (recommendation r = ''Moderate quality - may need additional context''
          \<longleftrightarrow> \<not> fge lib (overall_quality_score r) (float_lit lib 0.8)
              \<and> fge lib (overall_quality_score r) (float_lit lib 0.6))
     \<and> (recommendation r = ''Low quality - consider refining query or adding more sources''
          \<longleftrightarrow> \<not> fge lib (overall_quality_score r) (float_lit lib 0.8)
              \<and> \<not> fge lib (overall_quality_score r) (float_lit lib 0.6)
              \<and> fge lib (overall_quality_score r) (float_lit lib 0.4))
     \<and> (recommendation r = ''Poor quality - context may not be relevant or complete''
          \<longleftrightarrow> \<not> fge lib (overall_quality_score r) (float_lit lib 0.8)
              \<and> \<not> fge lib (overall_quality_score r) (float_lit lib 0.6)
              \<and> \<not> fge lib (overall_quality_score r) (float_lit lib 0.4))"
proof -
  obtain rel where rel: "evaluate_relevance lib query context = Inr rel"
    by (cases "relevance_try lib query context") (simp_all add: evaluate_relevance_def)
  obtain com where com: "evaluate_completeness lib query context = Inr com"
    by (cases "completeness_try lib query context") (simp_all add: evaluate_completeness_def)
  let ?o = "fadd lib (fmul lib (relevance_score rel) (float_lit lib 0.6))
                     (fmul lib (completeness_score com) (float_lit lib 0.4))"
  let ?r = "\<lparr> overall_quality_score = ?o, relevance = rel, completeness = com,
              recommendation = get_recommendation lib ?o \<rparr>"
  have q: "evaluate_quality lib query context = Inr ?r"
    using rel com by (simp add: evaluate_quality_def Let_def)
  have bands:
    "(get_recommendation lib ?o = ''High quality context - suitable for use'')
       = fge lib ?o (float_lit lib 0.8)"
    "(get_recommendation lib ?o = ''Moderate quality - may need additional context'')
       = (\<not> fge lib ?o (float_lit lib 0.8) \<and> fge lib ?o (float_lit lib 0.6))"
    "(get_recommendation lib ?o = ''Low quality - consider refining query or adding more sources'')
       = (\<not> fge lib ?o (float_lit lib 0.8) \<and> \<not> fge lib ?o (float_lit lib 0.6)
          \<and> fge lib ?o (float_lit lib 0.4))"
    "(get_recommendation lib ?o = ''Poor quality - context may not be relevant or complete'')
       = (\<not> fge lib ?o (float_lit lib 0.8) \<and> \<not> fge lib ?o (float_lit lib 0.6)
          \<and> \<not> fge lib ?o (float_lit lib 0.4))"
    by (auto simp: get_recommendation_def)
  show ?thesis
  proof (rule exI[of _ ?r], intro conjI)
    show "evaluate_quality lib query context = Inr ?r" by (rule q)
    show "evaluate_relevance lib query context = Inr (relevance ?r)" using rel by simp
    show "evaluate_completeness lib query context = Inr (completeness ?r)" using com by simp
    show "overall_quality_score ?r
         = fadd lib (fmul lib (relevance_score (relevance ?r)) (float_lit lib 0.6))
                    (fmul lib (completeness_score (completeness ?r)) (float_lit lib 0.4))"
      by simp
    show "recommendation ?r =
         (if fge lib (overall_quality_score ?r) (float_lit lib 0.8)
          then ''High quality context - suitable for use''
          else if fge lib (overall_quality_score ?r) (float_lit lib 0.6)
          then ''Moderate quality - may need additional context''
          else if fge lib (overall_quality_score ?r) (float_lit lib 0.4)
          then ''Low quality - consider refining query or adding more sources''
          else ''Poor quality - context may not be relevant or complete'')"
      by (simp add: get_recommendation_def)
    show "recommendation ?r = ''High quality context - suitable for use''
          \<longleftrightarrow> fge lib (overall_quality_score ?r) (float_lit lib 0.8)"
      using bands(1) by simp
    show "recommendation ?r = ''Moderate quality - may need additional context''
          \<longleftrightarrow> \<not> fge lib (overall_quality_score ?r) (float_lit lib 0.8)
              \<and> fge lib (overall_quality_score ?r) (float_lit lib 0.6)"
      using bands(2) by simp
    show "recommendation ?r = ''Low quality - consider refining query or adding more sources''
          \<longleftrightarrow> \<not> fge lib (overall_quality_score ?r) (float_lit lib 0.8)
              \<and> \<not> fge lib (overall_quality_score ?r) (float_lit lib 0.6)
              \<and> fge lib (overall_quality_score ?r) (float_lit lib 0.4)"
      using bands(3) by simp
    show "recommendation ?r = ''Poor quality - context may not be relevant or complete''
          \<longleftrightarrow> \<not> fge lib (overall_quality_score ?r) (float_lit lib 0.8)
              \<and> \<not> fge lib (overall_quality_score ?r) (float_lit lib 0.6)
              \<and> \<not> fge lib (overall_quality_score ?r) (float_lit lib 0.4)"
      using bands(4) by simp
  qed
qed

text \<open>
  At the sub-scores 0.2 and 0.7 the machine's overall score is 0.39999999999999997, below the
  threshold 0.4, and the recommendation is the poor band.
\<close>

theorem evaluate_quality_weighted_bands_witness:
  "evaluate_quality scoring_lib ''q'' ''c'' =
     Inr \<lparr> overall_quality_score = 0.39999999999999997,
           relevance = \<lparr> relevance_score = 0.2, relevance_explanation = JStr '''',
                         key_points = JArr [] \<rparr>,
           completeness = \<lparr> completeness_score = 0.7, completeness_explanation = JStr '''',
                            missing_aspects = JArr [] \<rparr>,
           recommendation = ''Poor quality - context may not be relevant or complete'' \<rparr>"
  using evaluate_quality_weighted_bands[of scoring_lib "''q''" "''c''"]
  by (simp add: evaluator_defs scoring_lib_def relevance_prompt_def completeness_prompt_def
        lines_nl_def demo_fmul_def demo_fadd_def)

subsection \<open>C9: a reply that is not the expected JSON\<close>

text \<open>
  C9 says that for a reply that cannot be parsed the sub-score is 0.0 and an explanation
  noting the parse failure is recorded.  When \<open>json.loads\<close> raises, \<open>_extract_json\<close> returns
  the empty dictionary, and the explanation is \<open>result.get("explanation", "")\<close>: on the reply
  \<open>I cannot rate this.\<close> the score is 0 and the explanation is the empty string.
\<close>

theorem parse_failure_empty_explanation:
  "acomplete plain_lib (relevance_prompt ''q'' ''c'') = Inr ''I cannot rate this.''
 \<and> json_loads plain_lib (json_candidate plain_lib ''I cannot rate this.'') = None
 \<and> evaluate_relevance plain_lib ''q'' ''c'' =
     Inr \<lparr> relevance_score = 0, relevance_explanation = JStr [], key_points = JArr [] \<rparr>"
  by (simp add: evaluator_defs plain_lib_def)

text \<open>
  C9 as amended: the evaluation never raises; for a reply from which no JSON is decoded the
  sub-score (relevance or completeness) is 0.0, the explanation is the empty string and the
  list of points is empty; when an exception is raised in the evaluation (by the service, by
  reading a decoded value that is not an object, or by converting its score) the sub-score
  is 0.0 and the explanation is \<open>Evaluation error:\<close> followed by the exception's message.
\<close>

theorem parse_failure_zero_score:
  "(\<exists>r. evaluate_quality lib query context = Inr r)
 \<and> (acomplete lib (relevance_prompt query context) = Inr reply
      \<and> json_loads lib (json_candidate lib reply) = None \<longrightarrow>
    evaluate_relevance lib query context =
      Inr \<lparr> relevance_score = float_lit lib 0.0, relevance_explanation = JStr [],
            key_points = JArr [] \<rparr>)
 \<and> (acomplete lib (completeness_prompt query context) = Inr reply'
      \<and> json_loads lib (json_candidate lib reply') = None \<longrightarrow>
    evaluate_completeness lib query context =
      Inr \<lparr> completeness_score = float_lit lib 0.0, completeness_explanation = JStr [],
            missing_aspects = JArr [] \<rparr>)
 \<and> (relevance_try lib query context = Inl m \<longrightarrow>
    evaluate_relevance lib query context =
      Inr \<lparr> relevance_score = float_lit lib 0.0,
            relevance_explanation = JStr (''Evaluation error: '' @ m),
            key_points = JArr [] \<rparr>)
 \<and> (completeness_try lib query context = Inl m' \<longrightarrow>
    evaluate_completeness lib query context =
      Inr \<lparr> completeness_score = float_lit lib 0.0,
            completeness_explanation = JStr (''Evaluation error: '' @ m'),
            missing_aspects = JArr [] \<rparr>)"
proof -
  obtain rel where rel: "evaluate_relevance lib query context = Inr rel"
    by (cases "relevance_try lib query context") (simp_all add: evaluate_relevance_def)
  obtain com where com: "evaluate_completeness lib query context = Inr com"
    by (cases "completeness_try lib query context") (simp_all add: evaluate_completeness_def)
  have total: "\<exists>r. evaluate_quality lib query context = Inr r"
    using rel com by (simp add: evaluate_quality_def Let_def)
  have r1: "acomplete lib (relevance_prompt query context) = Inr reply
      \<and> json_loads lib (json_candidate lib reply) = None \<longrightarrow>
    evaluate_relevance lib query context =
      Inr \<lparr> relevance_score = float_lit lib 0.0, relevance_explanation = JStr [],
            key_points = JArr [] \<rparr>"
    by (simp add: evaluate_relevance_def relevance_try_def extract_json_def)
  have c1: "acomplete lib (completeness_prompt query context) = Inr reply'
      \<and> json_loads lib (json_candidate lib reply') = None \<longrightarrow>
    evaluate_completeness lib query context =
      Inr \<lparr> completeness_score = float_lit lib 0.0, completeness_explanation = JStr [],
            missing_aspects = JArr [] \<rparr>"
    by (simp add: evaluate_completeness_def completeness_try_def extract_json_def)
  show ?thesis
    using total r1 c1 by (simp add: evaluate_relevance_def evaluate_completeness_def)
qed

theorem parse_failure_zero_score_witness:
  "acomplete plain_lib (relevance_prompt ''q'' ''c'') = Inr ''I cannot rate this.''
 \<and> acomplete plain_lib (completeness_prompt ''q'' ''c'') = Inr ''I cannot rate this.''
 \<and> json_loads plain_lib (json_candidate plain_lib ''I cannot rate this.'') = None
 \<and> evaluate_relevance plain_lib ''q'' ''c'' =
     Inr \<lparr> relevance_score = 0, relevance_explanation = JStr [], key_points = JArr [] \<rparr>
 \<and> evaluate_completeness plain_lib ''q'' ''c'' =
     Inr \<lparr> completeness_score = 0, completeness_explanation = JStr [],
           missing_aspects = JArr [] \<rparr>
 \<and> relevance_try (plain_lib\<lparr>json_loads := (\<lambda>t. Some (JArr []))\<rparr>) ''q'' ''c''
     = Inl (quoted ''list'' @ '' object has no attribute '' @ quoted ''get'')
 \<and> completeness_try (plain_lib\<lparr>json_loads := (\<lambda>t. Some (JArr []))\<rparr>) ''q'' ''c''
     = Inl (quoted ''list'' @ '' object has no attribute '' @ quoted ''get'')
 \<and> evaluate_relevance (plain_lib\<lparr>json_loads := (\<lambda>t. Some (JArr []))\<rparr>) ''q'' ''c'' =
     Inr \<lparr> relevance_score = 0,
           relevance_explanation =
             JStr (''Evaluation error: '' @ quoted ''list'' @ '' object has no attribute ''
                   @ quoted ''get''),
           key_points = JArr [] \<rparr>
 \<and> evaluate_completeness (plain_lib\<lparr>json_loads := (\<lambda>t. Some (JArr []))\<rparr>) ''q'' ''c'' =
     Inr \<lparr> completeness_score = 0,
           completeness_explanation =
             JStr (''Evaluation error: '' @ quoted ''list'' @ '' object has no attribute ''
                   @ quoted ''get''),
           missing_aspects = JArr [] \<rparr>"
  using parse_failure_zero_score
      [of plain_lib "''q''" "''c''" "''I cannot rate this.''" "''I cannot rate this.''"]
    parse_failure_zero_score
      [of "plain_lib\<lparr>json_loads := (\<lambda>t. Some (JArr []))\<rparr>" "''q''" "''c''" _ _
          "quoted ''list'' @ '' object has no attribute '' @ quoted ''get''"
          "quoted ''list'' @ '' object has no attribute '' @ quoted ''get''"]
  by (simp add: evaluator_defs plain_lib_def)

subsection \<open>C10: the calculator tool\<close>

text \<open>
  C10: \<open>execute\<close> always returns a string and never raises; when the expression holds a
  character outside \<open>0123456789+-*/.() \<close> the result is the message
  \<open>Error: Invalid characters in expression\<close> and nothing was handed to \<open>eval\<close>; when all
  characters are allowed and the evaluation raises, the result is the message
  \<open>Error calculating\<close> with the quoted expression and the exception's message.  The
  evaluation is taken to return a value or to raise an exception that the handler's class
  \<open>Exception\<close> covers.
\<close>

theorem execute_never_raises:
  "(\<exists>out. fst (execute py_eval expression) = Inr out)
 \<and> (\<not> set expression \<subseteq> set ''0123456789+-*/.() '' \<longrightarrow>
      execute py_eval expression = (Inr ''Error: Invalid characters in expression'', []))
 \<and> (set expression \<subseteq> set ''0123456789+-*/.() '' \<and> py_eval expression = Inl m \<longrightarrow>
      execute py_eval expression =
        (Inr (''Error calculating '' @ [CHR 0x27] @ expression @ [CHR 0x27] @ '': '' @ m),
         [expression]))"
proof -
  have a: "list_all (\<lambda>c. c \<in> allowed_chars) expression
             = (set expression \<subseteq> set ''0123456789+-*/.() '')"
    unfolding allowed_chars_def list_all_iff by blast
  show ?thesis
    unfolding execute_def calculator_try_def a quoted_def
    by (cases "py_eval expression") auto
qed

theorem execute_never_raises_witness:
  "\<not> set ''__import__(1)'' \<subseteq> set ''0123456789+-*/.() ''
 \<and> execute (\<lambda>x. Inr ''unreachable'') ''__import__(1)''
     = (Inr ''Error: Invalid characters in expression'', [])
 \<and> set ''1/0'' \<subseteq> set ''0123456789+-*/.() ''
 \<and> execute (\<lambda>x. Inl ''division by zero'') ''1/0''
     = (Inr (''Error calculating '' @ [CHR 0x27] @ ''1/0'' @ [CHR 0x27]
             @ '': division by zero''), [''1/0''])"
  using execute_never_raises[of "\<lambda>x. Inr ''unreachable''" "''__import__(1)''"]
    execute_never_raises[of "\<lambda>x. Inl ''division by zero''" "''1/0''" "''division by zero''"]
  by simp

end
